theory Spec2Isabelle
  imports Main "HOL-Library.Word"
begin

unbundle bit_operations_syntax

section \<open>Types of tla.h and insn_decode.h\<close>

text \<open>
  The incremental instruction decoder of the Teensy Logic Analyzer, embedded from
  \<^verbatim>\<open>insn_decode.h\<close>, \<^verbatim>\<open>insn_decode.c\<close>, \<^verbatim>\<open>insn_6502.c\<close>, \<^verbatim>\<open>insn_6800.c\<close>,
  \<^verbatim>\<open>insn_6809.c\<close> and \<^verbatim>\<open>insn_z80.c\<close>. The target is the Teensy 4.1 (32-bit ARM):
  \<^verbatim>\<open>int\<close> and \<^verbatim>\<open>long\<close> are 32 bits wide.
\<close>

datatype cpu_t = cpu_none | cpu_6502 | cpu_65c02 | cpu_6800 | cpu_6809 | cpu_6809e | cpu_z80

datatype addrmode_t =
    am_invalid
  | am6809_inherent | am6809_direct | am6809_extended | am6809_rel8 | am6809_rel16
  | am6809_imm8 | am6809_imm16
  | am6809_zero_off | am6809_zero_off_ind | am6809_const_off5
  | am6809_const_off8 | am6809_const_off8_ind
  | am6809_const_off16 | am6809_const_off16_ind
  | am6809_acc_off | am6809_acc_off_ind
  | am6809_post_inc1 | am6809_post_inc2 | am6809_post_inc2_ind
  | am6809_pre_dec1 | am6809_pre_dec2 | am6809_pre_dec2_ind
  | am6809_pcrel8 | am6809_pcrel8_ind | am6809_pcrel16 | am6809_pcrel16_ind
  | am6809_extended_ind | am6809_exg_tfr | am6809_psh_pul
  | am6502_implied | am6502_u8 | am6502_u16 | am6502_rel8
  | am6800_inherent | am6800_rel | am6800_indexed | am6800_imm8 | am6800_imm16
  | am6800_direct | am6800_extended
  | amz80_implied | amz80_u8 | amz80_u16 | amz80_disp8 | amz80_pcrel8

text \<open>The numeric value the C enumeration gives each addressing mode.\<close>

fun am_val :: "addrmode_t \<Rightarrow> int" where
  "am_val am_invalid = -1"
| "am_val am6809_inherent = 0"
| "am_val am6809_direct = 1"
| "am_val am6809_extended = 2"
| "am_val am6809_rel8 = 3"
| "am_val am6809_rel16 = 4"
| "am_val am6809_imm8 = 5"
| "am_val am6809_imm16 = 6"
| "am_val am6809_zero_off = 7"
| "am_val am6809_zero_off_ind = 8"
| "am_val am6809_const_off5 = 9"
| "am_val am6809_const_off8 = 10"
| "am_val am6809_const_off8_ind = 11"
| "am_val am6809_const_off16 = 12"
| "am_val am6809_const_off16_ind = 13"
| "am_val am6809_acc_off = 14"
| "am_val am6809_acc_off_ind = 15"
| "am_val am6809_post_inc1 = 16"
| "am_val am6809_post_inc2 = 17"
| "am_val am6809_post_inc2_ind = 18"
| "am_val am6809_pre_dec1 = 19"
| "am_val am6809_pre_dec2 = 20"
| "am_val am6809_pre_dec2_ind = 21"
| "am_val am6809_pcrel8 = 22"
| "am_val am6809_pcrel8_ind = 23"
| "am_val am6809_pcrel16 = 24"
| "am_val am6809_pcrel16_ind = 25"
| "am_val am6809_extended_ind = 26"
| "am_val am6809_exg_tfr = 27"
| "am_val am6809_psh_pul = 28"
| "am_val am6502_implied = 29"
| "am_val am6502_u8 = 30"
| "am_val am6502_u16 = 31"
| "am_val am6502_rel8 = 32"
| "am_val am6800_inherent = 33"
| "am_val am6800_rel = 34"
| "am_val am6800_indexed = 35"
| "am_val am6800_imm8 = 36"
| "am_val am6800_imm16 = 37"
| "am_val am6800_direct = 38"
| "am_val am6800_extended = 39"
| "am_val amz80_implied = 40"
| "am_val amz80_u8 = 41"
| "am_val amz80_u16 = 42"
| "am_val amz80_disp8 = 43"
| "am_val amz80_pcrel8 = 44"

definition am6809_first :: addrmode_t where "am6809_first = am6809_inherent"
definition am6809_last :: addrmode_t where "am6809_last = am6809_psh_pul"

text \<open>
  The cast \<^verbatim>\<open>(addrmode_t)((int)am + 1)\<close> of the indexed decoder: the enumerator whose
  value is one more. The last enumerator has none; the decoder applies the cast only to
  a mode whose indirect variant is declared right after it.
\<close>

fun am_next :: "addrmode_t \<Rightarrow> addrmode_t" where
  "am_next am_invalid = am6809_inherent"
| "am_next am6809_inherent = am6809_direct"
| "am_next am6809_direct = am6809_extended"
| "am_next am6809_extended = am6809_rel8"
| "am_next am6809_rel8 = am6809_rel16"
| "am_next am6809_rel16 = am6809_imm8"
| "am_next am6809_imm8 = am6809_imm16"
| "am_next am6809_imm16 = am6809_zero_off"
| "am_next am6809_zero_off = am6809_zero_off_ind"
| "am_next am6809_zero_off_ind = am6809_const_off5"
| "am_next am6809_const_off5 = am6809_const_off8"
| "am_next am6809_const_off8 = am6809_const_off8_ind"
| "am_next am6809_const_off8_ind = am6809_const_off16"
| "am_next am6809_const_off16 = am6809_const_off16_ind"
| "am_next am6809_const_off16_ind = am6809_acc_off"
| "am_next am6809_acc_off = am6809_acc_off_ind"
| "am_next am6809_acc_off_ind = am6809_post_inc1"
| "am_next am6809_post_inc1 = am6809_post_inc2"
| "am_next am6809_post_inc2 = am6809_post_inc2_ind"
| "am_next am6809_post_inc2_ind = am6809_pre_dec1"
| "am_next am6809_pre_dec1 = am6809_pre_dec2"
| "am_next am6809_pre_dec2 = am6809_pre_dec2_ind"
| "am_next am6809_pre_dec2_ind = am6809_pcrel8"
| "am_next am6809_pcrel8 = am6809_pcrel8_ind"
| "am_next am6809_pcrel8_ind = am6809_pcrel16"
| "am_next am6809_pcrel16 = am6809_pcrel16_ind"
| "am_next am6809_pcrel16_ind = am6809_extended_ind"
| "am_next am6809_extended_ind = am6809_exg_tfr"
| "am_next am6809_exg_tfr = am6809_psh_pul"
| "am_next am6809_psh_pul = am6502_implied"
| "am_next am6502_implied = am6502_u8"
| "am_next am6502_u8 = am6502_u16"
| "am_next am6502_u16 = am6502_rel8"
| "am_next am6502_rel8 = am6800_inherent"
| "am_next am6800_inherent = am6800_rel"
| "am_next am6800_rel = am6800_indexed"
| "am_next am6800_indexed = am6800_imm8"
| "am_next am6800_imm8 = am6800_imm16"
| "am_next am6800_imm16 = am6800_direct"
| "am_next am6800_direct = am6800_extended"
| "am_next am6800_extended = amz80_implied"
| "am_next amz80_implied = amz80_u8"
| "am_next amz80_u8 = amz80_u16"
| "am_next amz80_u16 = amz80_disp8"
| "am_next amz80_disp8 = amz80_pcrel8"
| "am_next amz80_pcrel8 = amz80_pcrel8"

definition am6809_indirect_p :: "addrmode_t \<Rightarrow> bool" where
  "am6809_indirect_p am \<longleftrightarrow>
     am = am6809_zero_off_ind \<or> am = am6809_const_off8_ind \<or>
     am = am6809_const_off16_ind \<or> am = am6809_acc_off_ind \<or>
     am = am6809_post_inc2_ind \<or> am = am6809_pre_dec2_ind \<or>
     am = am6809_pcrel8_ind \<or> am = am6809_pcrel16_ind \<or>
     am = am6809_extended_ind"

datatype decode_state_t = ds_idle | ds_fetching | ds_complete

definition INSN_DECODE_MAXBYTES :: int where "INSN_DECODE_MAXBYTES = 8"
definition INSN_DECODE_MAXSTRING :: nat where "INSN_DECODE_MAXSTRING = 28"

text \<open>
  The function pointer \<^verbatim>\<open>next_state\<close> of the session points at one of the four
  per-architecture routines, or is \<^verbatim>\<open>NULL\<close> (\<open>None\<close>).
\<close>

datatype next_state_fn = ns_6502 | ns_6800 | ns_6809 | ns_z80

text \<open>
  \<^verbatim>\<open>struct insn_decode\<close>. The array \<^verbatim>\<open>bytes\<close> is a list, of
  \<^verbatim>\<open>INSN_DECODE_MAXBYTES\<close> elements in a session of the program. The character buffer
  \<^verbatim>\<open>insn_string\<close> is modelled by the C string it holds (the characters before the
  terminating NUL), of fewer than \<^verbatim>\<open>INSN_DECODE_MAXSTRING\<close> characters: every routine
  that prints into it goes through \<open>store_insn_string\<close> below, or rewrites the
  string in place without making it longer.
\<close>

record insn_decode =
  state :: decode_state_t
  insn_address :: "32 word"
  resolved_address :: "32 word"
  resolved_address_valid :: bool
  next_state :: "next_state_fn option"
  bytes_required :: int
  bytes_fetched :: int
  addrmode :: addrmode_t
  bytes :: "8 word list"
  insn_string :: string

definition read_u16le :: "8 word list \<Rightarrow> nat \<Rightarrow> 16 word" where
  "read_u16le buf i = ucast (buf ! i) OR push_bit 8 (ucast (buf ! (i + 1)))"

definition read_s16le :: "8 word list \<Rightarrow> nat \<Rightarrow> int" where
  "read_s16le buf i = sint (read_u16le buf i)"

definition read_u16be :: "8 word list \<Rightarrow> nat \<Rightarrow> 16 word" where
  "read_u16be buf i = push_bit 8 (ucast (buf ! i)) OR ucast (buf ! (i + 1))"

definition read_s16be :: "8 word list \<Rightarrow> nat \<Rightarrow> int" where
  "read_s16be buf i = sint (read_u16be buf i)"

section \<open>The conversions of sprintf that the decoder uses\<close>

definition hexdigit :: "nat \<Rightarrow> char" where
  "hexdigit n = ''0123456789ABCDEF'' ! n"

fun hex_digits :: "nat \<Rightarrow> string" where
  "hex_digits n =
     (if n < 16 then [hexdigit n] else hex_digits (n div 16) @ [hexdigit (n mod 16)])"

declare hex_digits.simps [simp del]

text \<open>\<^verbatim>\<open>%0wX\<close>: upper-case hexadecimal, zero-padded on the left to at least \<open>w\<close> digits.\<close>

definition fmt_X :: "nat \<Rightarrow> nat \<Rightarrow> string" where
  "fmt_X w n = (let d = hex_digits n in replicate (w - length d) CHR ''0'' @ d)"

fun dec_digits :: "nat \<Rightarrow> string" where
  "dec_digits n =
     (if n < 10 then [hexdigit n] else dec_digits (n div 10) @ [hexdigit (n mod 10)])"

declare dec_digits.simps [simp del]

text \<open>\<^verbatim>\<open>%u\<close> and \<^verbatim>\<open>%d\<close>.\<close>

definition fmt_u :: "nat \<Rightarrow> string" where
  "fmt_u n = dec_digits n"

definition fmt_d :: "int \<Rightarrow> string" where
  "fmt_d v = (if v < 0 then CHR ''-'' # dec_digits (nat (- v)) else dec_digits (nat v))"

text \<open>\<^verbatim>\<open>%-wd\<close>: signed decimal, padded with blanks on the right to at least \<open>w\<close> characters.\<close>

definition fmt_d_left :: "nat \<Rightarrow> int \<Rightarrow> string" where
  "fmt_d_left w v = (let d = fmt_d v in d @ replicate (w - length d) CHR '' '')"

section \<open>Writes into the fixed buffers\<close>

text \<open>
  The decoder prints into character arrays of fixed size and stores the fetched bytes in
  an array of eight. A write that does not fit is undefined behaviour in C; the model
  makes it a result of its own, after which nothing more is computed.
  \<^item> \<open>op_overrun\<close>: \<^verbatim>\<open>sprintf\<close> into the local \<^verbatim>\<open>op\<close> array (\<^verbatim>\<open>char op[5]\<close> on the 6502,
    \<^verbatim>\<open>char op[8]\<close> on the Z80) prints more than the array holds;
  \<^item> \<open>tbuf_overrun\<close>: the same for the local \<^verbatim>\<open>tbuf\<close> of \<^verbatim>\<open>z80_insn_template\<close>;
  \<^item> \<open>insn_string_overrun\<close>: a string of \<^verbatim>\<open>INSN_DECODE_MAXSTRING\<close> characters or more
    is written to \<^verbatim>\<open>insn_string\<close>;
  \<^item> \<open>bytes_out_of_bounds\<close>: a byte is stored outside \<^verbatim>\<open>bytes[0..7]\<close>.
\<close>

datatype fault = op_overrun | tbuf_overrun | insn_string_overrun | bytes_out_of_bounds

definition and_then :: "fault + 'a \<Rightarrow> ('a \<Rightarrow> fault + 'b) \<Rightarrow> fault + 'b" where
  "and_then r f = (case r of Inl e \<Rightarrow> Inl e | Inr v \<Rightarrow> f v)"

text \<open>
  \<^verbatim>\<open>sprintf\<close> or \<^verbatim>\<open>strcpy\<close> of the text \<open>str\<close> into an array of \<open>n\<close> characters: the text
  and its terminating NUL have to fit.
\<close>

definition print_into :: "fault \<Rightarrow> nat \<Rightarrow> string \<Rightarrow> fault + string" where
  "print_into e n str = (if length str < n then Inr str else Inl e)"

definition store_insn_string :: "string \<Rightarrow> insn_decode \<Rightarrow> fault + insn_decode" where
  "store_insn_string str s =
     and_then (print_into insn_string_overrun INSN_DECODE_MAXSTRING str)
       (\<lambda>str. Inr (s\<lparr>insn_string := str\<rparr>))"

text \<open>
  The end of all four \<^verbatim>\<open>insn_decode_next_state_*\<close> routines: once the number of
  required bytes has been fetched, the formatter runs and the state becomes Complete.
\<close>

definition format_if_fetched ::
  "(insn_decode \<Rightarrow> fault + insn_decode) \<Rightarrow> insn_decode \<Rightarrow> fault + insn_decode" where
  "format_if_fetched format s1 =
     (if bytes_fetched s1 = bytes_required s1 then
        and_then (format s1) (\<lambda>s2. Inr (s2\<lparr>state := ds_complete\<rparr>))
      else Inr s1)"

section \<open>6809 / 6809E (insn_6809.c)\<close>

text \<open>
  \<^verbatim>\<open>insn_postbytes_6809\<close>: the number of bytes after the opcode, indexed by
  \<^verbatim>\<open>am - am6809_first\<close>.
\<close>

definition insn_postbytes_6809 :: "8 word list" where
  "insn_postbytes_6809 =
     [0, 1, 2, 1, 2, 1, 2,
      1, 1, 1, 2, 2, 3, 3, 1, 1, 1, 1, 1, 1, 1, 1, 2, 2, 3, 3, 3,
      1, 1]"

definition opcodes_6809 :: "string list" where
  "opcodes_6809 = [
    ''NEG'', ''?'', ''?'', ''COM'', ''LSR'', ''?'', ''ROR'', ''ASR'',
    ''ASL'', ''ROL'', ''DEC'', ''?'', ''INC'', ''TST'', ''JMP'', ''CLR'',
    ''(pg2)'', ''(pg3)'', ''NOP'', ''SYNC'', ''?'', ''?'', ''LBRA'', ''LBSR'',
    ''?'', ''DAA'', ''ORCC'', ''?'', ''ANDCC'', ''SEX'', ''EXG'', ''TFR'',
    ''BRA'', ''BRN'', ''BHI'', ''BLS'', ''BCC'', ''BCS'', ''BNE'', ''BEQ'',
    ''BVC'', ''BVS'', ''BPL'', ''BMI'', ''BGE'', ''BLT'', ''BGT'', ''BLE'',
    ''LEAX'', ''LEAY'', ''LEAS'', ''LEAU'', ''PSHS'', ''PULS'', ''PSHU'', ''PULU'',
    ''?'', ''RTS'', ''ABX'', ''RTI'', ''CWAI'', ''MUL'', ''?'', ''SWI'',
    ''NEGA'', ''?'', ''?'', ''COMA'', ''LSRA'', ''?'', ''RORA'', ''ASRA'',
    ''ASLA'', ''ROLA'', ''DECA'', ''?'', ''INCA'', ''TSTA'', ''?'', ''CLRA'',
    ''NEGB'', ''?'', ''?'', ''COMB'', ''LSRB'', ''?'', ''RORB'', ''ASRB'',
    ''ASLB'', ''ROLB'', ''DECB'', ''?'', ''INCB'', ''TSTB'', ''?'', ''CLRB'',
    ''NEG'', ''?'', ''?'', ''COM'', ''LSR'', ''?'', ''ROR'', ''ASR'',
    ''ASL'', ''ROL'', ''DEC'', ''?'', ''INC'', ''TST'', ''JMP'', ''CLR'',
    ''NEG'', ''?'', ''?'', ''COM'', ''LSR'', ''?'', ''ROR'', ''ASR'',
    ''ASL'', ''ROL'', ''DEC'', ''?'', ''INC'', ''TST'', ''JMP'', ''CLR'',
    ''SUBA'', ''CMPA'', ''SBCA'', ''SUBD'', ''ANDA'', ''BITA'', ''LDA'', ''?'',
    ''EORA'', ''ADCA'', ''ORA'', ''ADDA'', ''CMPX'', ''BSR'', ''LDX'', ''?'',
    ''SUBA'', ''CMPA'', ''SBCA'', ''SUBD'', ''ANDA'', ''BITA'', ''LDA'', ''STA'',
    ''EORA'', ''ADCA'', ''ORA'', ''ADDA'', ''CMPX'', ''JSR'', ''LDX'', ''STX'',
    ''SUBA'', ''CMPA'', ''SBCA'', ''SUBD'', ''ANDA'', ''BITA'', ''LDA'', ''STA'',
    ''EORA'', ''ADCA'', ''ORA'', ''ADDA'', ''CMPX'', ''JSR'', ''LDX'', ''STX'',
    ''SUBA'', ''CMPA'', ''SBCA'', ''SUBD'', ''ANDA'', ''BITA'', ''LDA'', ''STA'',
    ''EORA'', ''ADCA'', ''ORA'', ''ADDA'', ''CMPX'', ''JSR'', ''LDX'', ''STX'',
    ''SUBB'', ''CMPB'', ''SBCB'', ''ADDD'', ''ANDB'', ''BITB'', ''LDB'', ''?'',
    ''EORB'', ''ADCB'', ''ORB'', ''ADDB'', ''LDD'', ''?'', ''LDU'', ''?'',
    ''SUBB'', ''CMPB'', ''SBCB'', ''ADDD'', ''ANDB'', ''BITB'', ''LDB'', ''STB'',
    ''EORB'', ''ADCB'', ''ORB'', ''ADDB'', ''LDD'', ''STD'', ''LDU'', ''STU'',
    ''SUBB'', ''CMPB'', ''SBCB'', ''ADDD'', ''ANDB'', ''BITB'', ''LDB'', ''STB'',
    ''EORB'', ''ADCB'', ''ORB'', ''ADDB'', ''LDD'', ''STD'', ''LDU'', ''STU'',
    ''SUBB'', ''CMPB'', ''SBCB'', ''ADDD'', ''ANDB'', ''BITB'', ''LDB'', ''STB'',
    ''EORB'', ''ADCB'', ''ORB'', ''ADDB'', ''LDD'', ''STD'', ''LDU'', ''STU'']"

definition opcodes_long_cond_branches_6809 :: "string list" where
  "opcodes_long_cond_branches_6809 = [
    ''?'', ''LBRN'', ''LBHI'', ''LBLS'', ''LBCC'', ''LBCS'', ''LBNE'', ''LBEQ'',
    ''LBVC'', ''LBVS'', ''LBPL'', ''LBMI'', ''LBGE'', ''LBLT'', ''LBGT'', ''LBLE'']"

definition insn_decode_addrmode_indexed_6809 :: "8 word \<Rightarrow> addrmode_t" where
  "insn_decode_addrmode_indexed_6809 pb =
     (if pb AND 0x9F = 0x9F then am6809_extended_ind
      else if pb AND 0x80 = 0 then am6809_const_off5
      else
        let sel = pb AND 0x8F;
            am = (if sel = 0x84 then am6809_zero_off
                  else if sel = 0x88 then am6809_const_off8
                  else if sel = 0x89 then am6809_const_off16
                  else if sel = 0x86 \<or> sel = 0x85 \<or> sel = 0x8B then am6809_acc_off
                  else if sel = 0x80 then am6809_post_inc1
                  else if sel = 0x81 then am6809_post_inc2
                  else if sel = 0x82 then am6809_pre_dec1
                  else if sel = 0x83 then am6809_pre_dec2
                  else if sel = 0x8C then am6809_pcrel8
                  else if sel = 0x8D then am6809_pcrel16
                  else am_invalid)
        in if am = am_invalid then am_invalid
           else if pb AND 0x10 \<noteq> 0 then
             (if am = am6809_post_inc1 \<or> am = am6809_pre_dec1 then am_invalid
              else am_next am)
           else am)"

text \<open>The code at the label \<^verbatim>\<open>indexed_need2\<close>.\<close>

definition indexed_need2_6809 :: "insn_decode \<Rightarrow> addrmode_t" where
  "indexed_need2_6809 s =
     (if bytes_fetched s < 2 then am_invalid
      else insn_decode_addrmode_indexed_6809 (bytes s ! 1))"

definition insn_decode_addrmode_6809 :: "insn_decode \<Rightarrow> addrmode_t" where
  "insn_decode_addrmode_6809 s =
     (if bytes_fetched s = 0 then am_invalid
      else
        let opc = (ucast (bytes s ! 0) :: 32 word) in
        if opc = 0x10 \<or> opc = 0x11 then
          (if bytes_fetched s < 2 then am_invalid
           else
             let extopc = push_bit 8 opc OR ucast (bytes s ! 1);
                 sel = extopc AND 0xfff0
             in if sel = 0x1020 then am6809_rel16
                else if sel = 0x1030 \<or> sel = 0x1130 then am6809_inherent
                else if sel = 0x1080 \<or> sel = 0x1180 \<or> sel = 0x10c0 then am6809_imm16
                else if sel = 0x1090 \<or> sel = 0x1190 \<or> sel = 0x10d0 then am6809_direct
                else if sel = 0x10a0 \<or> sel = 0x11a0 \<or> sel = 0x10e0 then
                  (if bytes_fetched s < 3 then am_invalid
                   else insn_decode_addrmode_indexed_6809 (bytes s ! 2))
                else if sel = 0x10b0 \<or> sel = 0x11b0 \<or> sel = 0x10f0 then am6809_extended
                else am_invalid)
        else if (0x00 \<le> opc \<and> opc \<le> 0x0f) \<or> (0x90 \<le> opc \<and> opc \<le> 0x9f) \<or>
                (0xd0 \<le> opc \<and> opc \<le> 0xdf) then am6809_direct
        else if 0x10 \<le> opc \<and> opc \<le> 0x1f then
          (if opc = 0x12 \<or> opc = 0x13 \<or> opc = 0x19 \<or> opc = 0x1d then am6809_inherent
           else if opc = 0x16 \<or> opc = 0x17 then am6809_rel16
           else if opc = 0x1a \<or> opc = 0x1c then am6809_imm8
           else if opc = 0x1e \<or> opc = 0x1f then am6809_exg_tfr
           else am_invalid)
        else if 0x20 \<le> opc \<and> opc \<le> 0x2f then am6809_rel8
        else if 0x30 \<le> opc \<and> opc \<le> 0x3f then
          (if 0x30 \<le> opc \<and> opc \<le> 0x33 then indexed_need2_6809 s
           else if 0x34 \<le> opc \<and> opc \<le> 0x37 then am6809_psh_pul
           else if 0x39 \<le> opc \<and> opc \<le> 0x3f then am6809_inherent
           else am_invalid)
        else if (0x40 \<le> opc \<and> opc \<le> 0x4f) \<or> (0x50 \<le> opc \<and> opc \<le> 0x5f) then
          am6809_inherent
        else if (0x60 \<le> opc \<and> opc \<le> 0x6f) \<or> (0xa0 \<le> opc \<and> opc \<le> 0xaf) \<or>
                (0xe0 \<le> opc \<and> opc \<le> 0xef) then indexed_need2_6809 s
        else if (0x70 \<le> opc \<and> opc \<le> 0x7f) \<or> (0xb0 \<le> opc \<and> opc \<le> 0xbf) \<or>
                (0xf0 \<le> opc \<and> opc \<le> 0xff) then am6809_extended
        else if (0x80 \<le> opc \<and> opc \<le> 0x8f) \<or> (0xc0 \<le> opc \<and> opc \<le> 0xcf) then
          (if opc = 0x8d then am6809_rel8
           else
             let opc' = opc AND 0xf
             in if opc' = 0x3 \<or> opc' = 0xc \<or> opc' = 0xe then am6809_imm16
                else am6809_imm8)
        else am_invalid)"

definition insn_decode_format_exg_tfr_regname_6809 :: "8 word \<Rightarrow> string" where
  "insn_decode_format_exg_tfr_regname_6809 v =
     (if v = 0x0 then ''D''
      else if v = 0x1 then ''X''
      else if v = 0x2 then ''Y''
      else if v = 0x3 then ''U''
      else if v = 0x4 then ''S''
      else if v = 0x5 then ''PC''
      else if v = 0x8 then ''A''
      else if v = 0x9 then ''B''
      else if v = 0xA then ''CCR''
      else if v = 0xB then ''DPR''
      else ''?'')"

text \<open>
  \<^verbatim>\<open>insn_decode_format_6809\<close>, first part: the mnemonic \<^verbatim>\<open>opc\<close>, from the page 2 / page 3
  rules after a prefix byte and from \<^verbatim>\<open>opcodes_6809\<close> otherwise.
\<close>

definition insn_decode_format_6809_opc :: "8 word list \<Rightarrow> string" where
  "insn_decode_format_6809_opc bs =
     (if bs ! 0 = 0x10 \<or> bs ! 0 = 0x11 then
        let extopc = (push_bit 8 (ucast (bs ! 0)) OR ucast (bs ! 1) :: 32 word);
            extopc_u3 = extopc AND 0xfff0;
            extopc_b1 = extopc AND 0x000f
        in if 0x1020 \<le> extopc \<and> extopc \<le> 0x102f then
             opcodes_long_cond_branches_6809 ! unat (extopc AND 0xf)
           else if extopc = 0x103f then ''SWI2''
           else if extopc = 0x113f then ''SWI3''
           else if extopc_u3 = 0x1080 \<or> extopc_u3 = 0x1090 \<or>
                   extopc_u3 = 0x10a0 \<or> extopc_u3 = 0x10b0 then
             (if extopc = 0x108f then ''?''
              else if extopc_b1 = 0x3 then ''CMPD''
              else if extopc_b1 = 0xc then ''CMPY''
              else if extopc_b1 = 0xe then ''LDY''
              else if extopc_b1 = 0xf then ''STY''
              else ''?'')
           else if extopc_u3 = 0x10c0 \<or> extopc_u3 = 0x10d0 \<or>
                   extopc_u3 = 0x10e0 \<or> extopc_u3 = 0x10f0 then
             (if extopc = 0x10cf then ''?''
              else if extopc_b1 = 0xe then ''LDS''
              else if extopc_b1 = 0xf then ''STS''
              else ''?'')
           else if extopc_u3 = 0x1180 \<or> extopc_u3 = 0x1190 \<or>
                   extopc_u3 = 0x11a0 \<or> extopc_u3 = 0x11b0 then
             (if extopc_b1 = 0x3 then ''CMPU''
              else if extopc_b1 = 0xc then ''CMPS''
              else ''?'')
           else ''?''
      else opcodes_6809 ! unat (bs ! 0))"

definition index_regnames :: "string list" where
  "index_regnames = [''X'', ''Y'', ''U'', ''S'']"

text \<open>
  \<^verbatim>\<open>psh_pul_regnames\<close>, with its terminating entry; \<open>None\<close> is the \<^verbatim>\<open>NULL\<close> name of
  the bit that means U or S.
\<close>

definition psh_pul_regnames :: "(8 word \<times> string option) list" where
  "psh_pul_regnames =
     [(0x01, Some ''CCR''), (0x02, Some ''A''), (0x04, Some ''B''), (0x08, Some ''DPR''),
      (0x10, Some ''X''), (0x20, Some ''Y''), (0x40, None), (0x80, Some ''PC''),
      (0, None)]"

text \<open>
  The loop of the \<^verbatim>\<open>am6809_psh_pul\<close> case: \<open>b0\<close> is \<^verbatim>\<open>bytes[0]\<close>, \<open>b\<close> is \<^verbatim>\<open>bytes[i]\<close>,
  \<open>acc\<close> is what has been printed so far.
\<close>

fun format_psh_pul_6809 ::
  "8 word \<Rightarrow> 8 word \<Rightarrow> (8 word \<times> string option) list \<Rightarrow> string \<Rightarrow> string" where
  "format_psh_pul_6809 b0 b [] acc = acc"
| "format_psh_pul_6809 b0 b ((m, reg) # rest) acc =
     (if m = 0 then acc
      else if b AND m \<noteq> 0 then
        let cp2 = (case reg of
                     None \<Rightarrow> if b0 = 0x34 \<or> b0 = 0x35 then ''U'' else ''S''
                   | Some r \<Rightarrow> r);
            cp1 = (if b AND (m - 1) \<noteq> 0 then '','' else '''')
        in format_psh_pul_6809 b0 b rest (acc @ cp1 @ cp2)
      else format_psh_pul_6809 b0 b rest acc)"

text \<open>
  \<^verbatim>\<open>insn_decode_format_6809\<close>, the first \<^verbatim>\<open>switch\<close>: the string printed for the addressing
  mode and the value left in \<^verbatim>\<open>reloff\<close>. \<open>None\<close> is the jump to \<^verbatim>\<open>unknown_addrmode\<close>.
  \<open>i\<close> is the index of the first operand byte. In the \<^verbatim>\<open>am6809_const_off5\<close> case the
  shifts \<^verbatim>\<open>(s16 << 11) >> 11\<close> are evaluated in 32-bit \<^verbatim>\<open>int\<close>, as C promotes them.
\<close>

definition insn_decode_format_6809_switch ::
  "addrmode_t \<Rightarrow> 8 word list \<Rightarrow> nat \<Rightarrow> string \<Rightarrow> (string \<times> int) option" where
  "insn_decode_format_6809_switch am bs i opc =
     (let index_reg = drop_bit 5 (bs ! i) AND 3;
          reg1 = drop_bit 4 (bs ! i);
          reg2 = bs ! i AND 0xf;
          ind_open = (if am6809_indirect_p am then ''['' else '''');
          ind_close = (if am6809_indirect_p am then '']'' else '''');
          xreg = index_regnames ! unat index_reg;
          const_off = (\<lambda>s16. Some (opc @ '' '' @ ind_open @ fmt_d s16 @ '','' @ xreg @ ind_close, 0));
          rel = (\<lambda>s16. Some (opc @ '' '' @ fmt_d s16, s16));
          pcrel = (\<lambda>s16. Some (opc @ '' '' @ ind_open @ fmt_d s16 @ '',PCR'' @ ind_close, s16))
      in case am of
           am6809_inherent \<Rightarrow> Some (opc, 0)
         | am6809_direct \<Rightarrow> Some (opc @ '' < $'' @ fmt_X 2 (unat (bs ! i)), 0)
         | am6809_extended_ind \<Rightarrow>
             Some (opc @ '' '' @ ind_open @ ''$'' @ fmt_X 4 (unat (read_u16be bs (i + 1))) @ ind_close, 0)
         | am6809_extended \<Rightarrow>
             Some (opc @ '' '' @ ind_open @ ''$'' @ fmt_X 4 (unat (read_u16be bs i)) @ ind_close, 0)
         | am6809_rel8 \<Rightarrow> rel (sint (bs ! i))
         | am6809_rel16 \<Rightarrow> rel (read_s16be bs i)
         | am6809_imm8 \<Rightarrow> Some (opc @ '' #$'' @ fmt_X 2 (unat (bs ! i)), 0)
         | am6809_imm16 \<Rightarrow> Some (opc @ '' #$'' @ fmt_X 4 (unat (read_u16be bs i)), 0)
         | am6809_zero_off \<Rightarrow> Some (opc @ '' '' @ ind_open @ '','' @ xreg @ ind_close, 0)
         | am6809_zero_off_ind \<Rightarrow> Some (opc @ '' '' @ ind_open @ '','' @ xreg @ ind_close, 0)
         | am6809_const_off5 \<Rightarrow>
             const_off (sint (ucast (signed_drop_bit 11
                          (push_bit 11 (ucast (bs ! i AND 0x1f) :: 32 word))) :: 16 word))
         | am6809_const_off8 \<Rightarrow> const_off (sint (bs ! (i + 1)))
         | am6809_const_off8_ind \<Rightarrow> const_off (sint (bs ! (i + 1)))
         | am6809_const_off16 \<Rightarrow> const_off (read_s16be bs (i + i))
         | am6809_const_off16_ind \<Rightarrow> const_off (read_s16be bs (i + i))
         | am6809_acc_off \<Rightarrow>
             Some (opc @ '' '' @ ind_open @
                   (let r = bs ! i AND 0xF
                    in if r = 0x6 then ''A'' else if r = 0x5 then ''B''
                       else if r = 0xB then ''D'' else ''?'') @
                   '','' @ xreg @ ind_close, 0)
         | am6809_acc_off_ind \<Rightarrow>
             Some (opc @ '' '' @ ind_open @
                   (let r = bs ! i AND 0xF
                    in if r = 0x6 then ''A'' else if r = 0x5 then ''B''
                       else if r = 0xB then ''D'' else ''?'') @
                   '','' @ xreg @ ind_close, 0)
         | am6809_post_inc1 \<Rightarrow> Some (opc @ '' ,'' @ xreg @ ''+'', 0)
         | am6809_post_inc2 \<Rightarrow> Some (opc @ '' '' @ ind_open @ '','' @ xreg @ ''++'' @ ind_close, 0)
         | am6809_post_inc2_ind \<Rightarrow> Some (opc @ '' '' @ ind_open @ '','' @ xreg @ ''++'' @ ind_close, 0)
         | am6809_pre_dec1 \<Rightarrow> Some (opc @ '' ,-'' @ xreg, 0)
         | am6809_pre_dec2 \<Rightarrow> Some (opc @ '' '' @ ind_open @ '',--'' @ xreg @ ind_close, 0)
         | am6809_pre_dec2_ind \<Rightarrow> Some (opc @ '' '' @ ind_open @ '',--'' @ xreg @ ind_close, 0)
         | am6809_pcrel8 \<Rightarrow> pcrel (sint (bs ! (i + i)))
         | am6809_pcrel8_ind \<Rightarrow> pcrel (sint (bs ! (i + i)))
         | am6809_pcrel16 \<Rightarrow> pcrel (read_s16be bs (i + 1))
         | am6809_pcrel16_ind \<Rightarrow> pcrel (read_s16be bs (i + 1))
         | am6809_exg_tfr \<Rightarrow>
             Some (opc @ '' '' @ insn_decode_format_exg_tfr_regname_6809 reg1 @ '','' @
                   insn_decode_format_exg_tfr_regname_6809 reg2, 0)
         | am6809_psh_pul \<Rightarrow>
             Some (format_psh_pul_6809 (bs ! 0) (bs ! i) psh_pul_regnames (opc @ '' ''), 0)
         | _ \<Rightarrow> None)"

text \<open>The modes of the second \<^verbatim>\<open>switch\<close>, which resolve a target address.\<close>

definition am6809_resolves :: "addrmode_t \<Rightarrow> bool" where
  "am6809_resolves am \<longleftrightarrow>
     am = am6809_rel8 \<or> am = am6809_rel16 \<or> am = am6809_pcrel8 \<or>
     am = am6809_pcrel8_ind \<or> am = am6809_pcrel16 \<or> am = am6809_pcrel16_ind"

text \<open>
  \<^verbatim>\<open>insn_decode_format_6809\<close>. In the \<^verbatim>\<open>am6809_psh_pul\<close> case the string is printed
  piece by piece; the pieces fit exactly when the whole string does.
\<close>

definition insn_decode_format_6809 :: "insn_decode \<Rightarrow> fault + insn_decode" where
  "insn_decode_format_6809 s =
     (let bs = bytes s;
          i = (if bs ! 0 = 0x10 \<or> bs ! 0 = 0x11 then 2 else 1);
          opc = insn_decode_format_6809_opc bs;
          am = addrmode s
      in if am_val am < am_val am6809_first \<or> am_val am > am_val am6809_last then
           store_insn_string ''<?ADDRMODE?>'' s
         else
           case insn_decode_format_6809_switch am bs i opc of
             None \<Rightarrow> store_insn_string ''<?ADDRMODE?>'' s
           | Some (str, reloff) \<Rightarrow>
               and_then (store_insn_string str s)
                 (\<lambda>s1. Inr (if am6809_resolves am then
                              s1\<lparr>resolved_address := insn_address s + word_of_int reloff,
                                 resolved_address_valid := True\<rparr>
                            else s1)))"

text \<open>
  \<^verbatim>\<open>insn_decode_next_state_6809\<close>, the block under \<^verbatim>\<open>if (id->bytes_required == 0)\<close>
  after the wait for the byte that follows a page prefix: the addressing mode is looked
  up, and the total length is set when the mode is a 6809 mode.
\<close>

definition insn_decode_resolve_6809 :: "insn_decode \<Rightarrow> insn_decode" where
  "insn_decode_resolve_6809 s =
     (if bytes_required s = 0 then
        let am = insn_decode_addrmode_6809 s;
            s' = s\<lparr>addrmode := am\<rparr>
        in if am_val am6809_first \<le> am_val am \<and> am_val am \<le> am_val am6809_last then
             s'\<lparr>bytes_required :=
                   1 + uint (insn_postbytes_6809 ! nat (am_val am - am_val am6809_first)) +
                   (if bytes s ! 0 = 0x10 \<or> bytes s ! 0 = 0x11 then 1 else 0)\<rparr>
           else s'
      else s)"

definition insn_decode_next_state_6809 :: "insn_decode \<Rightarrow> fault + insn_decode" where
  "insn_decode_next_state_6809 s =
     (if state s \<noteq> ds_fetching \<or> bytes_fetched s = 0 then Inr s
      else if bytes_required s = 0 \<and> bytes_fetched s = 1 \<and>
              (bytes s ! 0 = 0x10 \<or> bytes s ! 0 = 0x11) then Inr s
      else format_if_fetched insn_decode_format_6809 (insn_decode_resolve_6809 s))"

section \<open>6800 (insn_6800.c)\<close>

definition opcodes_6800 :: "string list" where
  "opcodes_6800 = [
    ''?'', ''NOP'', ''?'', ''?'', ''?'', ''?'', ''TAP'', ''TPA'',
    ''INX'', ''DEX'', ''CLV'', ''SEV'', ''CLC'', ''SEC'', ''CLI'', ''SEI'',
    ''SBA'', ''CBA'', ''?'', ''?'', ''?'', ''?'', ''TAB'', ''TBA'',
    ''?'', ''DAA'', ''?'', ''ABA'', ''?'', ''?'', ''?'', ''?'',
    ''BRA'', ''?'', ''BHI'', ''BLS'', ''BCC'', ''BCS'', ''BNE'', ''BEQ'',
    ''BVC'', ''BVS'', ''BPL'', ''BMI'', ''BGE'', ''BLT'', ''BGT'', ''BLE'',
    ''TSX'', ''INS'', ''PULA'', ''PULB'', ''DES'', ''TXS'', ''PSHA'', ''PSHB'',
    ''?'', ''RTS'', ''?'', ''RTI'', ''?'', ''?'', ''WAI'', ''SWI'',
    ''NEGA'', ''?'', ''?'', ''COMA'', ''LSRA'', ''?'', ''RORA'', ''ASRA'',
    ''ASLA'', ''ROLA'', ''DECA'', ''?'', ''INCA'', ''TSTA'', ''?'', ''CLRA'',
    ''NEGB'', ''?'', ''?'', ''COMB'', ''LSRB'', ''?'', ''RORB'', ''ASRB'',
    ''ASLB'', ''ROLB'', ''DECB'', ''?'', ''INCB'', ''TSTB'', ''?'', ''CLRB'',
    ''NEG'', ''?'', ''?'', ''COM'', ''LSR'', ''?'', ''ROR'', ''ASR'',
    ''ASL'', ''ROL'', ''DEC'', ''?'', ''INC'', ''TST'', ''JMP'', ''CLR'',
    ''NEG'', ''?'', ''?'', ''COM'', ''LSR'', ''?'', ''ROR'', ''ASR'',
    ''ASL'', ''ROL'', ''DEC'', ''?'', ''INC'', ''TST'', ''JMP'', ''CLR'',
    ''SUBA'', ''CMPA'', ''SBCA'', ''?'', ''ANDA'', ''BITA'', ''LDAA'', ''?'',
    ''EORA'', ''ADCA'', ''ORAA'', ''ADDA'', ''CPX'', ''BSR'', ''LDS'', ''?'',
    ''SUBA'', ''CMPA'', ''SBCA'', ''?'', ''ANDA'', ''BITA'', ''LDAA'', ''STAA'',
    ''EORA'', ''ADCA'', ''ORAA'', ''ADDA'', ''CPX'', ''?'', ''LDS'', ''STS'',
    ''SUBA'', ''CMPA'', ''SBCA'', ''?'', ''ANDA'', ''BITA'', ''LDAA'', ''STAA'',
    ''EORA'', ''ADCA'', ''ORAA'', ''ADDA'', ''CPX'', ''JSR'', ''LDS'', ''STS'',
    ''SUBA'', ''CMPA'', ''SBCA'', ''?'', ''ANDA'', ''BITA'', ''LDAA'', ''STAA'',
    ''EORA'', ''ADCA'', ''ORAA'', ''ADDA'', ''CPX'', ''JSR'', ''LDS'', ''STS'',
    ''SUBB'', ''CMPB'', ''SBCB'', ''?'', ''ANDB'', ''BITB'', ''LDAB'', ''?'',
    ''EORB'', ''ADCB'', ''ORAB'', ''ADDB'', ''?'', ''?'', ''LDX'', ''?'',
    ''SUBB'', ''CMPB'', ''SBCB'', ''?'', ''ANDB'', ''BITB'', ''LDAB'', ''STAB'',
    ''EORB'', ''ADCB'', ''ORAB'', ''ADDB'', ''?'', ''?'', ''LDX'', ''STX'',
    ''SUBB'', ''CMPB'', ''SBCB'', ''?'', ''ANDB'', ''BITB'', ''LDAB'', ''STAB'',
    ''EORB'', ''ADCB'', ''ORAB'', ''ADDB'', ''?'', ''?'', ''LDX'', ''STX'',
    ''SUBB'', ''CMPB'', ''SBCB'', ''?'', ''ANDB'', ''BITB'', ''LDAB'', ''STAB'',
    ''EORB'', ''ADCB'', ''ORAB'', ''ADDB'', ''?'', ''?'', ''LDX'', ''STX'']"

definition insn_decode_addrmode_6800 :: "insn_decode \<Rightarrow> addrmode_t" where
  "insn_decode_addrmode_6800 s =
     (if bytes_fetched s = 0 then am_invalid
      else
        let opc = (ucast (bytes s ! 0) :: 32 word) in
        if (0 \<le> opc \<and> opc \<le> 0x1f) \<or> (0x30 \<le> opc \<and> opc \<le> 0x5f) then am6800_inherent
        else if 0x20 \<le> opc \<and> opc \<le> 0x2f then am6800_rel
        else if (0x60 \<le> opc \<and> opc \<le> 0x6f) \<or> (0xa0 \<le> opc \<and> opc \<le> 0xaf) \<or>
                (0xe0 \<le> opc \<and> opc \<le> 0xef) then am6800_indexed
        else if (0x70 \<le> opc \<and> opc \<le> 0x7f) \<or> (0xb0 \<le> opc \<and> opc \<le> 0xbf) \<or>
                (0xf0 \<le> opc \<and> opc \<le> 0xff) then am6800_extended
        else if (0x80 \<le> opc \<and> opc \<le> 0x8f) \<or> (0xc0 \<le> opc \<and> opc \<le> 0xcf) then
          (if opc = 0x8d then am6800_rel
           else if opc = 0x8e \<or> opc = 0xce then am6800_imm16
           else am6800_imm8)
        else if (0x90 \<le> opc \<and> opc \<le> 0x9f) \<or> (0xd0 \<le> opc \<and> opc \<le> 0xdf) then
          am6800_direct
        else am_invalid)"

definition insn_decode_format_6800 :: "insn_decode \<Rightarrow> fault + insn_decode" where
  "insn_decode_format_6800 s =
     (let bs = bytes s;
          opc = opcodes_6800 ! unat (bs ! 0)
      in case addrmode s of
           am6800_inherent \<Rightarrow> store_insn_string opc s
         | am6800_rel \<Rightarrow>
             and_then (store_insn_string (opc @ '' '' @ fmt_d (sint (bs ! 1))) s)
               (\<lambda>s1. Inr (s1\<lparr>resolved_address :=
                                insn_address s + 2 + word_of_int (sint (bs ! 1)),
                              resolved_address_valid := True\<rparr>))
         | am6800_indexed \<Rightarrow> store_insn_string (opc @ '' '' @ fmt_u (unat (bs ! 1)) @ '',X'') s
         | am6800_extended \<Rightarrow>
             store_insn_string (opc @ '' $'' @ fmt_X 4 (unat (read_u16be bs 1))) s
         | am6800_direct \<Rightarrow> store_insn_string (opc @ '' $'' @ fmt_X 2 (unat (bs ! 1))) s
         | am6800_imm8 \<Rightarrow> store_insn_string (opc @ '' #$'' @ fmt_X 2 (unat (bs ! 1))) s
         | am6800_imm16 \<Rightarrow>
             store_insn_string (opc @ '' #$'' @ fmt_X 4 (unat (read_u16be bs 1))) s
         | _ \<Rightarrow> store_insn_string ''<?ADDRMODE?>'' s)"

text \<open>
  \<^verbatim>\<open>insn_decode_next_state_6800\<close>, the block under \<^verbatim>\<open>if (id->bytes_required == 0)\<close>.
\<close>

definition insn_decode_resolve_6800 :: "insn_decode \<Rightarrow> insn_decode" where
  "insn_decode_resolve_6800 s =
     (if bytes_required s = 0 then
        let am = insn_decode_addrmode_6800 s;
            s' = s\<lparr>addrmode := am\<rparr>
        in case am of
             am6800_inherent \<Rightarrow> s'\<lparr>bytes_required := 1\<rparr>
           | am6800_rel \<Rightarrow> s'\<lparr>bytes_required := 2\<rparr>
           | am6800_indexed \<Rightarrow> s'\<lparr>bytes_required := 2\<rparr>
           | am6800_imm8 \<Rightarrow> s'\<lparr>bytes_required := 2\<rparr>
           | am6800_direct \<Rightarrow> s'\<lparr>bytes_required := 2\<rparr>
           | am6800_extended \<Rightarrow> s'\<lparr>bytes_required := 3\<rparr>
           | am6800_imm16 \<Rightarrow> s'\<lparr>bytes_required := 3\<rparr>
           | _ \<Rightarrow> s'
      else s)"

definition insn_decode_next_state_6800 :: "insn_decode \<Rightarrow> fault + insn_decode" where
  "insn_decode_next_state_6800 s =
     (if state s \<noteq> ds_fetching \<or> bytes_fetched s = 0 then Inr s
      else format_if_fetched insn_decode_format_6800 (insn_decode_resolve_6800 s))"

section \<open>6502 / 65C02 (insn_6502.c)\<close>

definition opcodes_65c02 :: "string list" where
  "opcodes_65c02 = [
    ''BRK'', ''ORA ($nn,X)'', ''?'', ''?'',
    ''TSB $nn'', ''ORA $nn'', ''ASL $nn'', ''RMB0 $nn'',
    ''PHP'', ''ORA #$nn'', ''ASLA'', ''?'',
    ''TSB $nnnn'', ''ORA $nnnn'', ''ASL $nnnn'', ''BBR0 $nn'',
    ''BPL rrrr'', ''ORA ($nn),Y'', ''ORA ($nn)'', ''?'',
    ''TRB $nn'', ''ORA $nn,X'', ''ASL $nn,X'', ''RMB1 $nn'',
    ''CLC'', ''ORA $nnnn,Y'', ''INCA'', ''?'',
    ''TRB $nnnn'', ''ORA $nnnn,X'', ''ASL $nnnn,X'', ''BBR1 $nn'',
    ''JSR $nnnn'', ''AND ($nn,X)'', ''?'', ''?'',
    ''BIT $nn'', ''AND $nn'', ''ROL $nn'', ''RMB2 $nn'',
    ''PLP'', ''AND #$nn'', ''ROLA'', ''?'',
    ''BIT $nnnn'', ''AND $nnnn'', ''ROL $nnnn'', ''BBR2 $nn'',
    ''BMI rrrr'', ''AND ($nn),Y'', ''AND ($nn)'', ''?'',
    ''BIT $nn,X'', ''AND $nn,X'', ''ROL $nn,X'', ''RMB3 $nn'',
    ''SEC'', ''AND $nnnn,Y'', ''DECA'', ''?'',
    ''BIT $nn,X'', ''AND $nnnn,X'', ''ROL $nnnn,X'', ''BBR3 $nn'',
    ''RTI'', ''EOR ($nn,X)'', ''?'', ''?'',
    ''?'', ''EOR $nn'', ''LSR $nn'', ''RMB4 $nn'',
    ''PHA'', ''EOR #$nn'', ''LSRA'', ''?'',
    ''JMP $nnnn'', ''EOR $nnnn'', ''LSR $nnnn'', ''BBR4 $nn'',
    ''BVC rrrr'', ''EOR ($nn),Y'', ''EOR ($nn)'', ''?'',
    ''?'', ''EOR $nn,X'', ''LSR $nn,X'', ''RMB5 $nn'',
    ''CLI'', ''EOR $nnnn,Y'', ''PHY'', ''?'',
    ''?'', ''EOR $nnnn,X'', ''LSR $nnnn,X'', ''BBR5 $nn'',
    ''RTS'', ''ADC ($nn,X)'', ''?'', ''?'',
    ''STZ $nn'', ''ADC $nn'', ''ROR $nn'', ''RMB6 $nn'',
    ''PLA'', ''ADC #$nn'', ''RORA'', ''?'',
    ''JMP ($nnnn)'', ''ADC $nnnn'', ''ROR $nnnn'', ''BBR6 $nn'',
    ''BVS rrrr'', ''ADC ($nn),Y'', ''ADC ($nn)'', ''?'',
    ''STZ $nn,X'', ''ADC $nn,X'', ''ROR $nn,X'', ''RMB7 $nn'',
    ''SEI'', ''ADC $nnnn,Y'', ''PLY'', ''?'',
    ''JMP ($nn,X)'', ''ADC $nnnn,X'', ''ROR $nnnn,X'', ''BBR7 $nn'',
    ''BRA rrrr'', ''STA ($nn,X)'', ''?'', ''?'',
    ''STY $nn'', ''STA $nn'', ''STX $nn'', ''SMB0 $nn'',
    ''DEY'', ''BIT #$nn'', ''TXA'', ''?'',
    ''STY $nnnn'', ''STA $nnnn'', ''STX $nnnn'', ''BBS0 $nn'',
    ''BCC rrrr'', ''STA ($nn),Y'', ''STA ($nn)'', ''?'',
    ''STY $nn,X'', ''STA $nn,X'', ''STX ($nn),Y'', ''SMB1 $nn'',
    ''TYA'', ''STA $nnnn,Y'', ''TXS'', ''?'',
    ''STZ $nn'', ''STA $nnnn,X'', ''STZ $nn,X'', ''BBS1 $nn'',
    ''LDY #$nn'', ''LDA ($nn,X)'', ''LDX #$nn'', ''?'',
    ''LDY $nn'', ''LDA $nnnn'', ''LDX $nn'', ''SMB2 $nn'',
    ''TAY'', ''LDA #$nn'', ''TAX'', ''?'',
    ''LDY $nnnn'', ''LDA $nnnn'', ''LDX $nnnn'', ''BBS2 $nn'',
    ''BCS rrrr'', ''LDA ($nn),Y'', ''LDA ($nn)'', ''?'',
    ''LDY $nn,X'', ''LDA $nn,X'', ''LDX ($nn),Y'', ''SMB3 $nn'',
    ''CLV'', ''LDA $nnnn,Y'', ''TSX'', ''?'',
    ''LDY $nnnn,X'', ''LDA $nnnn,X'', ''LDX $nnnn,Y'', ''BBS3 $nn'',
    ''CPY #$nn'', ''CMP ($nn,X)'', ''?'', ''?'',
    ''CPY $nnnn'', ''CMP $nnnn'', ''DEC $nnnn'', ''SMB4 $nn'',
    ''INY'', ''CMP #$nn'', ''DEX'', ''WAI'',
    ''CPY $nn'', ''CMP $nn'', ''DEC $nn'', ''BBS4 $nn'',
    ''BNE rrrr'', ''CMP ($nn),Y'', ''CMP ($nn)'', ''?'',
    ''?'', ''CMP $nn,X'', ''DEC $nn,X'', ''SMB5 $nn'',
    ''CLD'', ''CMP $nnnn,Y'', ''PHX'', ''STP'',
    ''?'', ''CMP $nnnn,X'', ''DEC $nnnn,X'', ''BBS5 $nn'',
    ''CPX #$nn'', ''SBC ($nn,X)'', ''?'', ''?'',
    ''CPX $nn'', ''SBC $nn'', ''INC $nn'', ''SMB6 $nn'',
    ''INX'', ''SBC #$nn'', ''NOP'', ''?'',
    ''CPX $nnnn'', ''SBC $nnnn'', ''INC $nnnn'', ''BBS6 $nn'',
    ''BEQ rrrr'', ''SBC ($nn),Y'', ''SBC ($nn)'', ''?'',
    ''?'', ''SBC $nn,X'', ''INC $nn,X'', ''SMB7 $nn'',
    ''SED'', ''SBC $nnnn,Y'', ''PLX'', ''?'',
    ''?'', ''SBC $nnnn,X'', ''INC $nnnn,X'', ''BBS7 $nn'']"

definition opcodes_6502 :: "string list" where
  "opcodes_6502 = [
    ''BRK'', ''ORA ($nn,X)'', ''?'', ''?'',
    ''?'', ''ORA $nn'', ''ASL $nn'', ''?'',
    ''PHP'', ''ORA #$nn'', ''ASLA'', ''?'',
    ''?'', ''ORA $nnnn'', ''ASL $nnnn'', ''?'',
    ''BPL rrrr'', ''ORA ($nn),Y'', ''?'', ''?'',
    ''?'', ''ORA $nn,X'', ''ASL $nn,X'', ''?'',
    ''CLC'', ''ORA $nnnn,Y'', ''?'', ''?'',
    ''?'', ''ORA $nnnn,X'', ''ASL $nnnn,X'', ''?'',
    ''JSR $nnnn'', ''AND ($nn,X)'', ''?'', ''?'',
    ''BIT $nn'', ''AND $nn'', ''ROL $nn'', ''?'',
    ''PLP'', ''AND #$nn'', ''ROLA'', ''?'',
    ''BIT $nnnn'', ''AND $nnnn'', ''ROL $nnnn'', ''?'',
    ''BMI rrrr'', ''AND ($nn),Y'', ''?'', ''?'',
    ''?'', ''AND $nn,X'', ''ROL $nn,X'', ''?'',
    ''SEC'', ''AND $nnnn,Y'', ''?'', ''?'',
    ''?'', ''AND $nnnn,X'', ''ROL $nnnn,X'', ''?'',
    ''RTI'', ''EOR ($nn,X)'', ''?'', ''?'',
    ''?'', ''EOR nn'', ''LSR $nn'', ''?'',
    ''PHA'', ''EOR #$nn'', ''LSRA'', ''?'',
    ''JMP $nnnn'', ''EOR $nnnn'', ''LSR $nnnn'', ''?'',
    ''BVC rrrr'', ''EOR ($nn),Y'', ''?'', ''?'',
    ''?'', ''EOR $nn,X'', ''LSR $nn,X'', ''?'',
    ''CLI'', ''EOR $nnnn,Y'', ''?'', ''?'',
    ''?'', ''EOR $nnnn,X'', ''LSR $nnnn,X'', ''?'',
    ''RTS'', ''ADC ($nn,X)'', ''?'', ''?'',
    ''?'', ''ADC $nn'', ''ROR $nn'', ''?'',
    ''PLA'', ''ADC #$nn'', ''RORA'', ''?'',
    ''JMP ($nnnn)'', ''ADC $nnnn'', ''ROR $nnnn'', ''?'',
    ''BVS rrrr'', ''ADC ($nn),Y'', ''?'', ''?'',
    ''?'', ''ADC $nn,X'', ''ROR $nn,X'', ''?'',
    ''SEI'', ''ADC $nnnn,Y'', ''?'', ''?'',
    ''?'', ''ADC $nnnn,X'', ''ROR $nnnn,X'', ''?'',
    ''?'', ''STA ($nn,X)'', ''?'', ''?'',
    ''STY $nn'', ''STA $nn'', ''STX $nn'', ''?'',
    ''DEY'', ''?'', ''TXA'', ''?'',
    ''STY $nnnn'', ''STA $nnnn'', ''STX $nnnn'', ''?'',
    ''BCC rrrr'', ''STA ($nn),Y'', ''?'', ''?'',
    ''STY $nn,X'', ''STA $nn,X'', ''STX $nn,Y'', ''?'',
    ''TYA'', ''STA $nnnn,Y'', ''TXS'', ''?'',
    ''?'', ''STA $nnnn,X'', ''?'', ''?'',
    ''LDY #$nn'', ''LDA ($nn,X)'', ''LDX #$nn'', ''?'',
    ''LDY $nn'', ''LDA $nn'', ''LDX $nn'', ''?'',
    ''TAY'', ''LDA #$nn'', ''TAX'', ''?'',
    ''LDY $nnnn'', ''LDA $nnnn'', ''LDX $nnnn'', ''?'',
    ''BCS rrrr'', ''LDA ($nn),Y'', ''?'', ''?'',
    ''LDY $nn,X'', ''LDA $nn,X'', ''LDX $nn,Y'', ''?'',
    ''CLV'', ''LDA $nnnn,Y'', ''TSX'', ''?'',
    ''LDY $nnnn,X'', ''LDA $nnnn,X'', ''LDX $nnnn,Y'', ''?'',
    ''CPY #$nn'', ''CMP ($nn,X)'', ''?'', ''?'',
    ''CPY $nn'', ''CMP $nn'', ''DEC $nn'', ''?'',
    ''INY'', ''CMP #$nn'', ''DEX'', ''?'',
    ''CPY $nnnn'', ''CMP $nnnn'', ''DEC $nnnn'', ''?'',
    ''BNE rrrr'', ''CMP ($nn),Y'', ''?'', ''?'',
    ''?'', ''CMP $nn,X'', ''DEC $nn,X'', ''?'',
    ''CLD'', ''CMP $nnnn,Y'', ''?'', ''?'',
    ''?'', ''CMP $nnnn,X'', ''DEC $nnnn,X'', ''?'',
    ''CPX #$nn'', ''SBC ($nn,X)'', ''?'', ''?'',
    ''CPX $nn'', ''SBC $nn'', ''INC $nn'', ''?'',
    ''INX'', ''SBC #$nn'', ''NOP'', ''?'',
    ''CPX $nnnn'', ''SBC $nnnn'', ''INC $nnnn'', ''?'',
    ''BEQ rrrr'', ''SBC ($nn),Y'', ''?'', ''?'',
    ''?'', ''SBC $nn,X'', ''INC $nn,X'', ''?'',
    ''SED'', ''SBC $nnnn,Y'', ''?'', ''?'',
    ''?'', ''SBC $nnnn,X'', ''INC $nnnn,X'', ''?'']"

text \<open>
  \<^verbatim>\<open>strstr\<close>: the index of the first occurrence of the needle, \<open>None\<close> for \<^verbatim>\<open>NULL\<close>.
\<close>

fun strstr :: "string \<Rightarrow> string \<Rightarrow> nat option" where
  "strstr [] needle = (if needle = [] then Some 0 else None)"
| "strstr (c # cs) needle =
     (if take (length needle) (c # cs) = needle then Some 0
      else map_option Suc (strstr cs needle))"

text \<open>
  \<^verbatim>\<open>memcpy(buf + p, src, n)\<close>: the first \<open>n\<close> characters of \<open>src\<close> overwrite the buffer
  from index \<open>p\<close> on. Every call of the decoder overwrites a placeholder of \<open>n\<close>
  characters that was found in the buffer, with a text of at least \<open>n\<close> characters.
\<close>

fun memcpy :: "string \<Rightarrow> nat \<Rightarrow> string \<Rightarrow> nat \<Rightarrow> string" where
  "memcpy buf p src 0 = buf"
| "memcpy buf p src (Suc n) = (memcpy buf p src n)[p + n := src ! n]"

text \<open>
  \<^verbatim>\<open>insn_decode_format_6502\<close>. The template is copied into \<^verbatim>\<open>insn_string\<close>, the operand
  is printed into \<^verbatim>\<open>char op[5]\<close>, and \<^verbatim>\<open>memcpy\<close> puts its first characters over the
  placeholder. \<^verbatim>\<open>val\<close> is an \<^verbatim>\<open>int16_t\<close>, which \<^verbatim>\<open>%X\<close> prints after the promotion to a
  32-bit \<^verbatim>\<open>int\<close>: a 16-bit operand of 0x8000 or more is negative there and prints as
  eight digits, which \<^verbatim>\<open>op\<close> does not hold. The global \<^verbatim>\<open>cpu\<close> is the parameter \<open>cpu\<close>.
\<close>

definition insn_decode_format_6502 :: "cpu_t \<Rightarrow> insn_decode \<Rightarrow> fault + insn_decode" where
  "insn_decode_format_6502 cpu s =
     (let opcodes = (if cpu = cpu_65c02 then opcodes_65c02 else opcodes_6502);
          str = opcodes ! unat (bytes s ! 0)
      in and_then (store_insn_string str s)
           (\<lambda>s1. case addrmode s of
                am6502_u8 \<Rightarrow>
                  (let val = (ucast (bytes s ! 1) :: 16 word)
                   in case strstr str ''nn'' of
                        None \<Rightarrow> Inr s1
                      | Some p \<Rightarrow>
                          and_then (print_into op_overrun 5
                                      (fmt_X 2 (unat (scast val :: 32 word))))
                            (\<lambda>op. Inr (s1\<lparr>insn_string := memcpy str p op 2\<rparr>)))
              | am6502_u16 \<Rightarrow>
                  (let val = read_u16le (bytes s) 1
                   in case strstr str ''nnnn'' of
                        None \<Rightarrow> Inr s1
                      | Some p \<Rightarrow>
                          and_then (print_into op_overrun 5
                                      (fmt_X 4 (unat (scast val :: 32 word))))
                            (\<lambda>op. Inr (s1\<lparr>insn_string := memcpy str p op 4\<rparr>)))
              | am6502_rel8 \<Rightarrow>
                  (let val = sint (bytes s ! 1)
                   in case strstr str ''rrrr'' of
                        None \<Rightarrow> Inr s1
                      | Some p \<Rightarrow>
                          and_then (print_into op_overrun 5 (fmt_d_left 4 val))
                            (\<lambda>op. Inr (s1\<lparr>insn_string := memcpy str p op 4,
                                          resolved_address :=
                                            insn_address s + word_of_int (bytes_required s) +
                                            word_of_int val,
                                          resolved_address_valid := True\<rparr>)))
              | _ \<Rightarrow> Inr s1))"

text \<open>
  \<^verbatim>\<open>insn_decode_next_state_6502\<close>, the block under \<^verbatim>\<open>if (id->bytes_required == 0)\<close>.
\<close>

definition insn_decode_resolve_6502 :: "cpu_t \<Rightarrow> insn_decode \<Rightarrow> insn_decode" where
  "insn_decode_resolve_6502 cpu s =
     (if bytes_required s = 0 then
        let opcodes = (if cpu = cpu_65c02 then opcodes_65c02 else opcodes_6502);
            cp1 = opcodes ! unat (bytes s ! 0)
        in if strstr cp1 ''nnnn'' \<noteq> None then
             s\<lparr>addrmode := am6502_u16, bytes_required := 3\<rparr>
           else if strstr cp1 ''nn'' \<noteq> None then
             s\<lparr>addrmode := am6502_u8, bytes_required := 2\<rparr>
           else if strstr cp1 ''rrrr'' \<noteq> None then
             s\<lparr>addrmode := am6502_rel8, bytes_required := 2\<rparr>
           else s\<lparr>addrmode := am6502_implied, bytes_required := 1\<rparr>
      else s)"

definition insn_decode_next_state_6502 :: "cpu_t \<Rightarrow> insn_decode \<Rightarrow> fault + insn_decode" where
  "insn_decode_next_state_6502 cpu s =
     (if state s \<noteq> ds_fetching \<or> bytes_fetched s = 0 then Inr s
      else format_if_fetched (insn_decode_format_6502 cpu) (insn_decode_resolve_6502 cpu s))"

section \<open>Z80 (insn_z80.c)\<close>

definition opcodes_z80 :: "string list" where
  "opcodes_z80 = [
    ''NOP'', ''LD BC,XXXXh'', ''LD (BC),A'', ''INC BC'',
    ''INC B'', ''DEC B'', ''LD B,XXh'', ''RLCA'',
    ''EX AF,AF'' @ [CHR 0x27], ''ADD HL,BC'', ''LD A,(BC)'', ''DEC BC'',
    ''INC C'', ''DEC C'', ''LD C,XXh'', ''RRCA'',
    ''DJNZ rrrr'', ''LD DE,XXXXh'', ''LD (DE),A'', ''INC DE'',
    ''INC D'', ''DEC D'', ''LD D,XXh'', ''RLA'',
    ''JR rrrr'', ''ADD HL,DE'', ''LD A,(DE)'', ''DEC DE'',
    ''INC E'', ''DEC E'', ''LD E,XXh'', ''RRA'',
    ''JR NZ,rrrr'', ''LD HL,XXXXh'', ''LD (XXXXh),HL'', ''INC HL'',
    ''INC H'', ''DEC H'', ''LD H,XXh'', ''DAA'',
    ''JR Z,rrrr'', ''ADD HL,HL'', ''LD HL,(XXXXh)'', ''DEC HL'',
    ''INC L'', ''DEC L'', ''LD L,XXh'', ''CPL'',
    ''JR NC,rrrr'', ''LD SP,XXXXh'', ''LD (XXXXh),A'', ''INC SP'',
    ''INC (HL)'', ''DEC (HL)'', ''LD (HL),XXh'', ''SCF'',
    ''JR C,rrrr'', ''ADD HL,SP'', ''LD A,(XXXXh)'', ''DEC SP'',
    ''INC A'', ''DEC A'', ''LD A,XXh'', ''CCF'',
    ''LD B,B'', ''LD B,C'', ''LD B,D'', ''LD B,E'',
    ''LD B,H'', ''LD B,L'', ''LD B,(HL)'', ''LD B,A'',
    ''LD C,B'', ''LD C,C'', ''LD C,D'', ''LD C,E'',
    ''LD C,H'', ''LD C,L'', ''LD C,(HL)'', ''LD C,A'',
    ''LD D,B'', ''LD D,C'', ''LD D,D'', ''LD D,E'',
    ''LD D,H'', ''LD D,L'', ''LD D,(HL)'', ''LD D,A'',
    ''LD E,B'', ''LD E,C'', ''LD E,D'', ''LD E,E'',
    ''LD E,H'', ''LD E,L'', ''LD E,(HL)'', ''LD E,A'',
    ''LD H,B'', ''LD H,C'', ''LD H,D'', ''LD H,E'',
    ''LD H,H'', ''LD H,L'', ''LD H,(HL)'', ''LD H,A'',
    ''LD L,B'', ''LD L,C'', ''LD L,D'', ''LD L,E'',
    ''LD L,H'', ''LD L,L'', ''LD L,(HL)'', ''LD L,A'',
    ''LD (HL),B'', ''LD (HL),C'', ''LD (HL),D'', ''LD (HL),E'',
    ''LD (HL),H'', ''LD (HL),L'', ''HALT'', ''LD (HL),A'',
    ''LD A,B'', ''LD A,C'', ''LD A,D'', ''LD A,E'',
    ''LD A,H'', ''LD A,L'', ''LD A,(HL)'', ''LD A,A'',
    ''ADD B'', ''ADD C'', ''ADD D'', ''ADD E'',
    ''ADD H'', ''ADD L'', ''ADD (HL)'', ''ADD A'',
    ''ADC B'', ''ADC C'', ''ADC D'', ''ADC E'',
    ''ADC H'', ''ADC L'', ''ADC (HL)'', ''ADC A'',
    ''SUB B'', ''SUB C'', ''SUB D'', ''SUB E'',
    ''SUB H'', ''SUB L'', ''SUB (HL)'', ''SUB A'',
    ''SBC B'', ''SBC C'', ''SBC D'', ''SBC E'',
    ''SBC H'', ''SBC L'', ''SBC (HL)'', ''SBC A'',
    ''AND B'', ''AND C'', ''AND D'', ''AND E'',
    ''AND H'', ''AND L'', ''AND (HL)'', ''AND A'',
    ''XOR B'', ''XOR C'', ''XOR D'', ''XOR E'',
    ''XOR H'', ''XOR L'', ''XOR (HL)'', ''XOR A'',
    ''OR B'', ''OR C'', ''OR D'', ''OR E'',
    ''OR H'', ''OR L'', ''OR (HL)'', ''OR A'',
    ''CP B'', ''CP C'', ''CP D'', ''CP E'',
    ''CP H'', ''CP L'', ''CP (HL)'', ''CP A'',
    ''RET NZ'', ''POP BC'', ''JP NZ,XXXXh'', ''JP XXXXh'',
    ''CALL NZ,XXXXh'', ''PUSH BC'', ''ADD XXh'', ''RST 00h'',
    ''RET Z'', ''RET'', ''JP Z,XXXXh'', ''extCB'',
    ''CALL Z,XXXXh'', ''CALL XXXXh'', ''ADC XXh'', ''RST 08h'',
    ''RET NC'', ''POP DE'', ''JP NC,XXXXh'', ''OUT (XXh),A'',
    ''CALL NC,XXXXh'', ''PUSH DE'', ''SUB XXh'', ''RST 10h'',
    ''RET C'', ''EXX'', ''JP C,XXXXh'', ''IN A,(XXh)'',
    ''CALL C,XXXXh'', ''extDD'', ''SBC XXh'', ''RST 18h'',
    ''RET PO'', ''POP HL'', ''JP PO,XXXXh'', ''EX (SP),HL'',
    ''CALL PO,XXXXh'', ''PUSH HL'', ''AND XXh'', ''RST 20h'',
    ''RET PE'', ''JP (HL)'', ''JP PE,XXXXh'', ''EX DE,HL'',
    ''CALL PE,XXXXh'', ''extED'', ''XOR XXh'', ''RST 28h'',
    ''RET P'', ''POP AF'', ''JP P,XXXXh'', ''DI'',
    ''CALL P,XXXXh'', ''PUSH AF'', ''OR XXh'', ''RST 30h'',
    ''RET M'', ''LD SP,HL'', ''JP M,XXXXh'', ''EI'',
    ''CALL M,XXXXh'', ''extFD'', ''CP XXh'', ''RST 38h'']"

definition opcodes_CB :: "string list" where
  "opcodes_CB = [
    ''RLC '', ''RRC '', ''RL '', ''RR '', ''SLA '', ''SRA '', ''? '', ''SRL '',
    ''BIT 0,'', ''BIT 1,'', ''BIT 2,'', ''BIT 3,'', ''BIT 4,'', ''BIT 5,'', ''BIT 6,'', ''BIT 7,'',
    ''RES 0,'', ''RES 1,'', ''RES 2,'', ''RES 3,'', ''RES 4,'', ''RES 5,'', ''RES 6,'', ''RES 7,'',
    ''SET 0,'', ''SET 1,'', ''SET 2,'', ''SET 3,'', ''SET 4,'', ''SET 5,'', ''SET 6,'', ''SET 7,'']"

text \<open>
  The Z80 routines scan and rewrite the \<^verbatim>\<open>insn_string\<close> buffer in place. Where they do,
  the buffer is the string followed by its terminating \<open>NUL\<close>; a rewrite that shortens
  the string leaves the old characters behind the new terminator, as in C.
\<close>

definition NUL :: char where
  "NUL = CHR 0x00"

definition cstring :: "string \<Rightarrow> string" where
  "cstring buf = takeWhile (\<lambda>c. c \<noteq> NUL) buf"

text \<open>\<^verbatim>\<open>z80_operand_types\<close>, with its terminating entry (\<open>None\<close> for \<^verbatim>\<open>NULL\<close>).\<close>

definition z80_operand_types :: "(string option \<times> addrmode_t) list" where
  "z80_operand_types =
     [(Some ''XXXXh'', amz80_u16), (Some ''XXh'', amz80_u8),
      (Some ''+ddd'', amz80_disp8), (Some ''rrrr'', amz80_pcrel8),
      (None, am_invalid)]"

definition z80_operand_size :: "addrmode_t \<Rightarrow> nat" where
  "z80_operand_size mode =
     (case mode of
        amz80_u8 \<Rightarrow> 1
      | amz80_disp8 \<Rightarrow> 1
      | amz80_pcrel8 \<Rightarrow> 1
      | amz80_u16 \<Rightarrow> 2
      | _ \<Rightarrow> 0)"

text \<open>
  The inner loop of \<^verbatim>\<open>z80_next_operand\<close>: the first operand type whose text is at the
  head of \<open>cs\<close> (\<^verbatim>\<open>memcmp\<close> over its length gives 0), with that length.
\<close>

fun z80_match_operand ::
  "(string option \<times> addrmode_t) list \<Rightarrow> string \<Rightarrow> (nat \<times> addrmode_t) option" where
  "z80_match_operand [] cs = None"
| "z80_match_operand ((None, mode) # rest) cs = None"
| "z80_match_operand ((Some opr, mode) # rest) cs =
     (if take (length opr) cs = opr then Some (length opr, mode)
      else z80_match_operand rest cs)"

text \<open>
  \<^verbatim>\<open>z80_next_operand\<close>, scanning the buffer from index \<open>cp\<close>: the index of the operand
  found, its mode and the new cursor; \<open>None\<close> for \<^verbatim>\<open>NULL\<close>.
\<close>

function z80_next_operand :: "string \<Rightarrow> nat \<Rightarrow> (nat \<times> addrmode_t \<times> nat) option" where
  "z80_next_operand buf cp =
     (if cp < length buf \<and> buf ! cp \<noteq> NUL then
        (case z80_match_operand z80_operand_types (drop cp buf) of
           Some (oplen, mode) \<Rightarrow> Some (cp, mode, cp + oplen)
         | None \<Rightarrow> z80_next_operand buf (cp + 1))
      else None)"
  by pat_completeness auto
termination
  by (relation "measure (\<lambda>(buf, cp). length buf - cp)") auto

declare z80_next_operand.simps [simp del]

text \<open>
  The first loop of \<^verbatim>\<open>z80_hl_to_index\<close>: \<open>t1\<close> is the rest of the template, \<open>out\<close> what
  has been copied. \<open>None\<close> when the terminator is copied before any HL is met; otherwise
  the copy, \<^verbatim>\<open>need_disp\<close> and the template after the HL.
\<close>

fun z80_hl_copy :: "string \<Rightarrow> 8 word \<Rightarrow> bool \<Rightarrow> string \<Rightarrow> (string \<times> bool \<times> string) option" where
  "z80_hl_copy [] opc need_disp out = None"
| "z80_hl_copy (c # t1) opc need_disp out =
     (if c = CHR ''H'' \<and> take 1 t1 = ''L'' then Some (out, need_disp, drop 1 t1)
      else z80_hl_copy t1 opc
             (if c = CHR ''('' \<and> take 2 t1 = ''HL'' \<and> opc \<noteq> 0xe9 then True else need_disp)
             (out @ [c]))"

text \<open>A routine that has written the session and returns the flag \<open>ok\<close>.\<close>

definition returning :: "bool \<Rightarrow> fault + insn_decode \<Rightarrow> fault + bool \<times> insn_decode" where
  "returning ok r = and_then r (\<lambda>s1. Inr (ok, s1))"

text \<open>
  \<^verbatim>\<open>z80_hl_to_index\<close> copies into \<^verbatim>\<open>insn_string\<close> character by character; the copy fits
  exactly when the whole result does.
\<close>

definition z80_hl_to_index ::
  "insn_decode \<Rightarrow> string \<Rightarrow> 8 word \<Rightarrow> 8 word \<Rightarrow> fault + bool \<times> insn_decode" where
  "z80_hl_to_index s tmpl opc which =
     (case z80_hl_copy tmpl opc False [] of
        None \<Rightarrow> returning False (store_insn_string tmpl s)
      | Some (out, need_disp, rest) \<Rightarrow>
          returning True
            (store_insn_string
               (out @ ''I'' @ [if which = 0xdd then CHR ''X'' else CHR ''Y''] @
                (if need_disp then ''+ddd'' else '''') @ rest) s))"

definition ld_regs :: "string list" where
  "ld_regs = [''B'', ''C'', ''D'', ''E'', ''H'', ''L'', ''(HL)'', ''A'']"

definition io_regs :: "string list" where
  "io_regs = [''B'', ''C'', ''D'', ''E'', ''H'', ''L'', ''?'', ''A'']"

definition ld_regs16 :: "string list" where
  "ld_regs16 = [''BC'', ''DE'', ''HL'', ''SP'']"

text \<open>The \<^verbatim>\<open>switch\<close> of the ED group in \<^verbatim>\<open>z80_insn_template\<close>.\<close>

definition z80_ed_named :: "8 word \<Rightarrow> string" where
  "z80_ed_named opc =
     (if opc = 0x57 then ''LD A,I''
      else if opc = 0x5f then ''LD A,R''
      else if opc = 0x47 then ''LD I,A''
      else if opc = 0x4f then ''LD R,A''
      else if opc = 0xa0 then ''LDI''
      else if opc = 0xb0 then ''LDIR''
      else if opc = 0xa8 then ''LDD''
      else if opc = 0xb8 then ''LDDR''
      else if opc = 0xa1 then ''CPI''
      else if opc = 0xb1 then ''CPIR''
      else if opc = 0xa9 then ''CPD''
      else if opc = 0xb9 then ''CPDR''
      else if opc = 0x44 then ''NEG''
      else if opc = 0x46 then ''IM 0''
      else if opc = 0x56 then ''IM 1''
      else if opc = 0x5e then ''IM 2''
      else if opc = 0x6f then ''RLD''
      else if opc = 0x67 then ''RRD''
      else if opc = 0x4d then ''RETI''
      else if opc = 0x45 then ''RETN''
      else if opc = 0xa2 then ''INI''
      else if opc = 0xb2 then ''INIR''
      else if opc = 0xaa then ''IND''
      else if opc = 0xba then ''INDR''
      else if opc = 0xa3 then ''OUTI''
      else if opc = 0xb3 then ''OUTIR''
      else if opc = 0xab then ''OUTD''
      else if opc = 0xbb then ''OTDR''
      else ''?'')"

text \<open>
  The body of the CB group in \<^verbatim>\<open>z80_insn_template\<close>, once its opcode byte \<open>opc\<close> has
  been picked. \<^verbatim>\<open>tbuf\<close> has \<^verbatim>\<open>INSN_DECODE_MAXSTRING\<close> characters.
\<close>

definition z80_cb_template :: "insn_decode \<Rightarrow> 8 word \<Rightarrow> fault + bool \<times> insn_decode" where
  "z80_cb_template s opc =
     and_then (print_into tbuf_overrun INSN_DECODE_MAXSTRING
                 (opcodes_CB ! unat (drop_bit 3 opc AND 0x1f) @ ld_regs ! unat (opc AND 7)))
       (\<lambda>tbuf. if bytes s ! 0 = 0xdd \<or> bytes s ! 0 = 0xfd then
                  and_then (z80_hl_to_index s tbuf opc (bytes s ! 0))
                    (\<lambda>(r, s1). Inr (True, s1))
                else returning True (store_insn_string tbuf s))"

definition z80_insn_template :: "insn_decode \<Rightarrow> fault + bool \<times> insn_decode" where
  "z80_insn_template s =
     (let bs = bytes s;
          opc = bs ! 0
      in if (opc = 0xdd \<or> opc = 0xfd) \<and> bytes_fetched s \<ge> 2 \<and> bs ! 1 \<noteq> 0xcb then
           let opc = bs ! 1
           in and_then
                (if opc AND 0xCF = 0x09 then
                   print_into tbuf_overrun INSN_DECODE_MAXSTRING
                     (''ADD I'' @ [if bs ! 0 = 0xdd then CHR ''X'' else CHR ''Y''] @ '','' @
                      ld_regs16 ! unat (drop_bit 4 opc AND 3))
                 else Inr (opcodes_z80 ! unat opc))
                (\<lambda>tmpl. and_then (z80_hl_to_index s tmpl opc (bs ! 0))
                           (\<lambda>(r, s1). Inr (True, s1)))
         else if opc = 0xed then
           (if bytes_fetched s < 2 then Inr (False, s)
            else
              let opc = bs ! 1;
                  reg16 = drop_bit 4 opc AND 3;
                  ioreg = drop_bit 3 opc AND 7
              in returning True
                   (store_insn_string
                      (if opc AND 0xCF = 0x4B then
                         ''LD '' @ ld_regs16 ! unat reg16 @ '',(XXXXh)''
                       else if opc AND 0xCF = 0x43 then
                         ''LD (XXXXh),'' @ ld_regs16 ! unat reg16
                       else if opc AND 0xCF = 0x4A then
                         ''ADC HL,'' @ ld_regs16 ! unat reg16
                       else if opc AND 0xCF = 0x42 then
                         ''SBC HL,'' @ ld_regs16 ! unat reg16
                       else if opc AND 0xC7 = 0x40 then
                         ''IN '' @ (if ioreg = 6 then ''Flags'' else io_regs ! unat ioreg) @
                         '',(C)''
                       else if opc AND 0xC7 = 0x41 then
                         ''OUT (C),'' @ io_regs ! unat ioreg
                       else z80_ed_named opc) s))
         else if opc = 0xcb \<or>
                 ((opc = 0xdd \<or> opc = 0xfd) \<and> bytes_fetched s \<ge> 2 \<and> bs ! 1 = 0xcb) then
           (if opc = 0xcb then
              (if bytes_fetched s < 2 then Inr (False, s) else z80_cb_template s (bs ! 1))
            else
              (if bytes_fetched s < 4 then Inr (False, s) else z80_cb_template s (bs ! 3)))
         else if opc = 0xcb \<or> opc = 0xdd \<or> opc = 0xed \<or> opc = 0xfd then Inr (False, s)
         else returning True (store_insn_string (opcodes_z80 ! unat opc) s))"

text \<open>
  The whitespace collapse of the \<^verbatim>\<open>amz80_disp8\<close> case: advance to the first blank or
  terminator, skip the blanks, and copy the rest of the string down over them.
\<close>

function z80_to_blank :: "string \<Rightarrow> nat \<Rightarrow> nat" where
  "z80_to_blank buf cp =
     (if cp < length buf \<and> buf ! cp \<noteq> CHR '' '' \<and> buf ! cp \<noteq> NUL
      then z80_to_blank buf (cp + 1) else cp)"
  by pat_completeness auto
termination
  by (relation "measure (\<lambda>(buf, cp). length buf - cp)") auto

function z80_past_blanks :: "string \<Rightarrow> nat \<Rightarrow> nat" where
  "z80_past_blanks buf ncp =
     (if ncp < length buf \<and> buf ! ncp = CHR '' ''
      then z80_past_blanks buf (ncp + 1) else ncp)"
  by pat_completeness auto
termination
  by (relation "measure (\<lambda>(buf, ncp). length buf - ncp)") auto

function z80_copy_down :: "string \<Rightarrow> nat \<Rightarrow> nat \<Rightarrow> string" where
  "z80_copy_down buf cp ncp =
     (if ncp < length buf then
        (let c = buf ! ncp; buf' = buf[cp := c]
         in if c \<noteq> NUL then z80_copy_down buf' (cp + 1) (ncp + 1) else buf')
      else buf)"
  by pat_completeness auto
termination
  by (relation "measure (\<lambda>(buf, cp, ncp). length buf - ncp)") auto

declare z80_to_blank.simps [simp del]
declare z80_past_blanks.simps [simp del]
declare z80_copy_down.simps [simp del]

definition z80_collapse :: "string \<Rightarrow> nat \<Rightarrow> string" where
  "z80_collapse buf cp0 =
     (let cp = z80_to_blank buf cp0
      in if cp < length buf \<and> buf ! cp = CHR '' '' then
           z80_copy_down buf cp (z80_past_blanks buf cp)
         else buf)"

text \<open>
  The \<^verbatim>\<open>switch\<close> in the loop of \<^verbatim>\<open>insn_decode_format_z80\<close>: what it does to the buffer
  for the operand found at \<open>cp\<close>, whose first byte is \<^verbatim>\<open>bytes[opr_byte]\<close>. The operand is
  printed into \<^verbatim>\<open>char op[8]\<close> and copied over the placeholder, inside the string that
  is already there.
\<close>

definition z80_format_operand ::
  "8 word list \<Rightarrow> addrmode_t \<Rightarrow> string \<Rightarrow> nat \<Rightarrow> nat \<Rightarrow> fault + string" where
  "z80_format_operand bs mode buf cp opr_byte =
     (case mode of
        amz80_u16 \<Rightarrow>
          and_then (print_into op_overrun 8 (fmt_X 4 (unat (read_u16le bs opr_byte))))
            (\<lambda>op. Inr (memcpy buf cp op 4))
      | amz80_u8 \<Rightarrow>
          and_then (print_into op_overrun 8 (fmt_X 2 (unat (bs ! opr_byte))))
            (\<lambda>op. Inr (memcpy buf cp op 2))
      | amz80_pcrel8 \<Rightarrow>
          and_then (print_into op_overrun 8 (fmt_d_left 4 (sint (bs ! opr_byte + 2))))
            (\<lambda>op. Inr (memcpy buf cp op 4))
      | amz80_disp8 \<Rightarrow>
          (let s8 = sint (bs ! opr_byte)
           in if s8 < 0 then
                and_then (print_into op_overrun 8 (fmt_d_left 4 s8))
                  (\<lambda>op. Inr (z80_collapse (memcpy buf cp op 4) cp))
              else
                and_then (print_into op_overrun 8 (fmt_d_left 3 s8))
                  (\<lambda>op. Inr (z80_collapse (memcpy buf (cp + 1) op 3) cp)))
      | _ \<Rightarrow> Inr buf)"

text \<open>
  Termination of the two operand loops: a match is never empty, so the cursor moves
  forward inside the buffer, and the rewrites keep the length of the buffer.
\<close>

lemma z80_match_operand_pos:
  "z80_match_operand z80_operand_types cs = Some (n, m) \<Longrightarrow> 0 < n"
  by (auto simp: z80_operand_types_def split: if_splits)

lemma z80_next_operand_cursor:
  "z80_next_operand buf c = Some (cp, m, c') \<Longrightarrow> c < c' \<and> c < length buf"
proof (induction buf c rule: z80_next_operand.induct)
  case (1 buf cp0)
  show ?case
  proof (cases "cp0 < length buf \<and> buf ! cp0 \<noteq> NUL")
    case False
    with "1.prems" show ?thesis by (simp add: z80_next_operand.simps)
  next
    case True
    show ?thesis
    proof (cases "z80_match_operand z80_operand_types (drop cp0 buf)")
      case None
      with True "1.prems" have "z80_next_operand buf (cp0 + 1) = Some (cp, m, c')"
        by (simp add: z80_next_operand.simps)
      with "1.IH" True None have "cp0 + 1 < c'" by simp
      with True show ?thesis by simp
    next
      case (Some r)
      obtain n md where r: "r = (n, md)" by (cases r)
      from Some r have "0 < n" using z80_match_operand_pos by blast
      moreover from True Some r "1.prems" have "c' = cp0 + n"
        by (simp add: z80_next_operand.simps)
      ultimately show ?thesis using True by simp
    qed
  qed
qed

lemma length_memcpy: "length (memcpy buf p src n) = length buf"
  by (induction n) simp_all

lemma length_z80_copy_down: "length (z80_copy_down buf cp ncp) = length buf"
proof (induction buf cp ncp rule: z80_copy_down.induct)
  case (1 buf cp ncp)
  show ?case
  proof (cases "ncp < length buf")
    case False
    then show ?thesis by (simp add: z80_copy_down.simps)
  next
    case True
    show ?thesis
    proof (cases "buf ! ncp = NUL")
      case True
      with \<open>ncp < length buf\<close> show ?thesis
        by (subst z80_copy_down.simps) (simp add: Let_def)
    next
      case False
      with \<open>ncp < length buf\<close> "1.IH" [OF \<open>ncp < length buf\<close> refl refl False] show ?thesis
        by (subst z80_copy_down.simps) (simp add: Let_def)
    qed
  qed
qed

lemma length_z80_format_operand:
  "z80_format_operand bs mode buf cp opr_byte = Inr buf' \<Longrightarrow> length buf' = length buf"
  by (cases mode)
     (auto simp add: z80_format_operand_def z80_collapse_def Let_def and_then_def
        print_into_def length_memcpy length_z80_copy_down split: if_splits)

text \<open>
  The loop of \<^verbatim>\<open>insn_decode_format_z80\<close>. \<open>res\<close> is the \<^verbatim>\<open>s8\<close> of the last
  \<^verbatim>\<open>amz80_pcrel8\<close> operand, from which the resolved address is set.
\<close>

function z80_format_loop ::
  "8 word list \<Rightarrow> string \<Rightarrow> nat \<Rightarrow> nat \<Rightarrow> int option \<Rightarrow> fault + string \<times> int option" where
  "z80_format_loop bs buf curs opr_byte res =
     (case z80_next_operand buf curs of
        None \<Rightarrow> Inr (buf, res)
      | Some (cp, mode, curs') \<Rightarrow>
          (case z80_format_operand bs mode buf cp opr_byte of
             Inl e \<Rightarrow> Inl e
           | Inr buf' \<Rightarrow>
               z80_format_loop bs buf' curs' (opr_byte + z80_operand_size mode)
                 (if mode = amz80_pcrel8 then Some (sint (bs ! opr_byte + 2)) else res)))"
  by pat_completeness auto
termination
proof (relation "measure (\<lambda>(bs, buf, curs, opr_byte, res). length buf - curs)")
  show "wf (measure (\<lambda>(bs, buf, curs, opr_byte, res). length buf - curs))" by simp
next
  fix bs :: "8 word list" and buf curs and opr_byte :: nat and res :: "int option"
    and x2 cp y mode curs' buf'
  assume "z80_next_operand buf curs = Some x2" "(cp, y) = x2" "(mode, curs') = y"
    and fmt: "z80_format_operand bs mode buf cp opr_byte = Inr buf'"
  then have "z80_next_operand buf curs = Some (cp, mode, curs')" by simp
  then have "curs < curs' \<and> curs < length buf" by (rule z80_next_operand_cursor)
  moreover from fmt have "length buf' = length buf" by (rule length_z80_format_operand)
  ultimately show "((bs, buf', curs', opr_byte + z80_operand_size mode,
                if mode = amz80_pcrel8 then Some (sint (bs ! opr_byte + 2)) else res),
               bs, buf, curs, opr_byte, res)
             \<in> measure (\<lambda>(bs, buf, curs, opr_byte, res). length buf - curs)"
    by simp arith
qed

declare z80_format_loop.simps [simp del]

text \<open>
  \<^verbatim>\<open>insn_decode_format_z80\<close> rewrites \<^verbatim>\<open>insn_string\<close> in place; the result is never
  longer than the template that was there.
\<close>

definition insn_decode_format_z80 :: "insn_decode \<Rightarrow> fault + insn_decode" where
  "insn_decode_format_z80 s =
     (let b0 = bytes s ! 0;
          opr_byte = (if b0 = 0xcb \<or> b0 = 0xed then 2
                      else if b0 = 0xdd \<or> b0 = 0xfd then 2 else 1)
      in and_then (z80_format_loop (bytes s) (insn_string s @ [NUL]) 0 opr_byte None)
           (\<lambda>(buf, res). case res of
                None \<Rightarrow> Inr (s\<lparr>insn_string := cstring buf\<rparr>)
              | Some s8 \<Rightarrow>
                  Inr (s\<lparr>insn_string := cstring buf,
                         resolved_address := insn_address s + word_of_int s8,
                         resolved_address_valid := True\<rparr>)))"

text \<open>
  The loop of \<^verbatim>\<open>insn_decode_next_state_z80\<close> that adds the operand sizes to
  \<^verbatim>\<open>bytes_required\<close> (\<open>n\<close>).
\<close>

function z80_operand_bytes :: "string \<Rightarrow> nat \<Rightarrow> int \<Rightarrow> int" where
  "z80_operand_bytes buf curs n =
     (case z80_next_operand buf curs of
        None \<Rightarrow> n
      | Some (cp, mode, curs') \<Rightarrow> z80_operand_bytes buf curs' (n + int (z80_operand_size mode)))"
  by pat_completeness auto
termination
proof (relation "measure (\<lambda>(buf, curs, n). length buf - curs)")
  show "wf (measure (\<lambda>(buf, curs, n). length buf - curs))" by simp
next
  fix buf curs and n :: int and x2 cp y mode curs'
  assume "z80_next_operand buf curs = Some x2" "(cp, y) = x2" "(mode, curs') = y"
  then have "z80_next_operand buf curs = Some (cp, mode, curs')" by simp
  then have "curs < curs' \<and> curs < length buf" by (rule z80_next_operand_cursor)
  then show "((buf, curs', n + int (z80_operand_size mode)), buf, curs, n)
             \<in> measure (\<lambda>(buf, curs, n). length buf - curs)"
    by simp arith
qed

declare z80_operand_bytes.simps [simp del]

text \<open>
  \<^verbatim>\<open>insn_decode_next_state_z80\<close>, the rest of the block under
  \<^verbatim>\<open>if (id->bytes_required == 0)\<close> once the template is there: the opcode bytes and the
  operand bytes are counted.
\<close>

definition insn_decode_count_z80 :: "insn_decode \<Rightarrow> insn_decode" where
  "insn_decode_count_z80 s' =
     (let b0 = bytes s' ! 0;
          n = (if b0 = 0xcb \<or> b0 = 0xed then 2
               else if b0 = 0xdd \<or> b0 = 0xfd then
                 (if bytes_fetched s' \<ge> 2 \<and> bytes s' ! 1 = 0xcb then 3 else 2)
               else 1)
      in s'\<lparr>bytes_required := z80_operand_bytes (insn_string s' @ [NUL]) 0 n\<rparr>)"

definition insn_decode_next_state_z80 :: "insn_decode \<Rightarrow> fault + insn_decode" where
  "insn_decode_next_state_z80 s =
     (if state s \<noteq> ds_fetching \<or> bytes_fetched s = 0 then Inr s
      else if bytes_required s = 0 then
        and_then (z80_insn_template s)
          (\<lambda>(ok, s'). if \<not> ok then Inr s'
                       else format_if_fetched insn_decode_format_z80 (insn_decode_count_z80 s'))
      else format_if_fetched insn_decode_format_z80 s)"

section \<open>The session driver (insn_decode.c)\<close>

text \<open>The global \<^verbatim>\<open>cpu\<close> is the parameter \<open>cpu\<close> of the routines that read it.\<close>

definition insn_decode_init :: "cpu_t \<Rightarrow> insn_decode \<Rightarrow> insn_decode" where
  "insn_decode_init cpu s =
     (let s1 = s\<lparr>state := ds_idle\<rparr>
      in case cpu of
           cpu_6502 \<Rightarrow> s1\<lparr>next_state := Some ns_6502\<rparr>
         | cpu_65c02 \<Rightarrow> s1\<lparr>next_state := Some ns_6502\<rparr>
         | cpu_6800 \<Rightarrow> s1\<lparr>next_state := Some ns_6800\<rparr>
         | cpu_6809 \<Rightarrow> s1\<lparr>next_state := Some ns_6809\<rparr>
         | cpu_6809e \<Rightarrow> s1\<lparr>next_state := Some ns_6809\<rparr>
         | cpu_z80 \<Rightarrow> s1\<lparr>next_state := Some ns_z80\<rparr>
         | cpu_none \<Rightarrow> s1\<lparr>next_state := None\<rparr>)"

text \<open>The call \<^verbatim>\<open>(*id->next_state)(id)\<close>.\<close>

definition call_next_state ::
  "cpu_t \<Rightarrow> next_state_fn \<Rightarrow> insn_decode \<Rightarrow> fault + insn_decode" where
  "call_next_state cpu f s =
     (case f of
        ns_6502 \<Rightarrow> insn_decode_next_state_6502 cpu s
      | ns_6800 \<Rightarrow> insn_decode_next_state_6800 s
      | ns_6809 \<Rightarrow> insn_decode_next_state_6809 s
      | ns_z80 \<Rightarrow> insn_decode_next_state_z80 s)"

text \<open>
  \<^verbatim>\<open>insn_decode_next_state\<close>: the returned flag and the session. \<^verbatim>\<open>%04lX\<close> prints the
  32-bit resolved address with at least four digits, behind the string that is in
  \<^verbatim>\<open>insn_string\<close>.
\<close>

definition insn_decode_next_state ::
  "cpu_t \<Rightarrow> insn_decode \<Rightarrow> fault + bool \<times> insn_decode" where
  "insn_decode_next_state cpu s =
     (let ostate = state s
      in case next_state s of
           None \<Rightarrow> Inr (False, s)
         | Some f \<Rightarrow>
             and_then (call_next_state cpu f s)
               (\<lambda>s1. if ostate = ds_fetching then
                        (if state s1 = ds_complete \<and> resolved_address_valid s1 then
                           returning True
                             (store_insn_string
                                (insn_string s1 @ '' <'' @
                                 fmt_X 4 (unat (resolved_address s1)) @ ''>'') s1)
                         else Inr (True, s1))
                      else Inr (False, s1)))"

definition insn_decode_begin ::
  "cpu_t \<Rightarrow> insn_decode \<Rightarrow> 32 word \<Rightarrow> 8 word \<Rightarrow> fault + insn_decode" where
  "insn_decode_begin cpu s addr b =
     (if next_state s \<noteq> None \<and> (state s = ds_idle \<or> state s = ds_complete) then
        and_then
          (insn_decode_next_state cpu
             (s\<lparr>state := ds_fetching,
                insn_address := addr,
                resolved_address := 0,
                resolved_address_valid := False,
                addrmode := am_invalid,
                bytes_required := 0,
                bytes_fetched := 1,
                bytes := (bytes s)[0 := b]\<rparr>))
          (\<lambda>(r, s'). Inr s')
      else Inr s)"

text \<open>
  \<^verbatim>\<open>insn_decode_continue\<close>: the returned flag \<^verbatim>\<open>was_fetching\<close> and the session. The
  byte is stored at index \<^verbatim>\<open>bytes_fetched\<close> of the eight-byte array: the only test
  before the store is \<^verbatim>\<open>bytes_fetched == INSN_DECODE_MAXBYTES\<close>.
\<close>

definition insn_decode_continue ::
  "cpu_t \<Rightarrow> insn_decode \<Rightarrow> 8 word \<Rightarrow> fault + bool \<times> insn_decode" where
  "insn_decode_continue cpu s b =
     (if state s = ds_fetching then
        (if bytes_fetched s = INSN_DECODE_MAXBYTES then
           and_then (store_insn_string ''<decode overflow>'' s)
             (\<lambda>s1. Inr (False, s1\<lparr>state := ds_complete\<rparr>))
         else if 0 \<le> bytes_fetched s \<and> bytes_fetched s < INSN_DECODE_MAXBYTES then
           insn_decode_next_state cpu
             (s\<lparr>bytes := (bytes s)[nat (bytes_fetched s) := b],
                bytes_fetched := bytes_fetched s + 1\<rparr>)
         else Inl bytes_out_of_bounds)
      else Inr (False, s))"

text \<open>
  \<^verbatim>\<open>insn_decode_complete\<close> takes the session by pointer: the model returns the string
  together with the session the call leaves behind.
\<close>

definition insn_decode_complete :: "insn_decode \<Rightarrow> string \<times> insn_decode" where
  "insn_decode_complete s = (if state s = ds_complete then (insn_string s, s) else ('''', s))"

text \<open>
  A caller's use of a session: a list of calls, run from left to right until one of them
  overruns a buffer. The results of \<^verbatim>\<open>insn_decode_continue\<close> are dropped here.
\<close>

datatype call = Begin "32 word" "8 word" | Continue "8 word"

fun do_call :: "cpu_t \<Rightarrow> insn_decode \<Rightarrow> call \<Rightarrow> fault + insn_decode" where
  "do_call cpu s (Begin addr b) = insn_decode_begin cpu s addr b"
| "do_call cpu s (Continue b) =
     and_then (insn_decode_continue cpu s b) (\<lambda>(r, s'). Inr s')"

fun run :: "cpu_t \<Rightarrow> insn_decode \<Rightarrow> call list \<Rightarrow> fault + insn_decode" where
  "run cpu s [] = Inr s"
| "run cpu s (c # calls) = and_then (do_call cpu s c) (\<lambda>s'. run cpu s' calls)"

text \<open>A session whose storage is all zero, as a static \<^verbatim>\<open>struct insn_decode\<close> starts.\<close>

definition zero_session :: insn_decode where
  "zero_session =
     \<lparr>state = ds_idle, insn_address = 0, resolved_address = 0,
      resolved_address_valid = False, next_state = None,
      bytes_required = 0, bytes_fetched = 0, addrmode = am6809_inherent,
      bytes = [0, 0, 0, 0, 0, 0, 0, 0], insn_string = ''''\<rparr>"

section \<open>Notions and sessions used in the statements\<close>

text \<open>
  What the decode routines leave alone: the count of fetched bytes, the bytes, and the
  required length once it is not 0.
\<close>

definition frame :: "insn_decode \<Rightarrow> insn_decode \<Rightarrow> bool" where
  "frame s s' \<longleftrightarrow>
     bytes_fetched s' = bytes_fetched s \<and> bytes s' = bytes s \<and>
     (bytes_required s \<noteq> 0 \<longrightarrow> bytes_required s' = bytes_required s)"

text \<open>
  A routine keeps the frame when its result is a session in the frame of the one it was
  given, or an overrun of a text buffer: it never stores outside \<^verbatim>\<open>bytes\<close>.
\<close>

definition keeps :: "insn_decode \<Rightarrow> fault + insn_decode \<Rightarrow> bool" where
  "keeps s r = (case r of Inl e \<Rightarrow> e \<noteq> bytes_out_of_bounds | Inr s' \<Rightarrow> frame s s')"

definition keeps_flag :: "insn_decode \<Rightarrow> fault + bool \<times> insn_decode \<Rightarrow> bool" where
  "keeps_flag s r =
     (case r of Inl e \<Rightarrow> e \<noteq> bytes_out_of_bounds | Inr (ok, s') \<Rightarrow> frame s s')"

text \<open>
  A session is counted when its byte array has eight places and it is idle
  (\<^verbatim>\<open>insn_decode_init\<close> leaves the counters as it found them) or holds between one and
  eight fetched bytes.
\<close>

definition counted :: "insn_decode \<Rightarrow> bool" where
  "counted s \<longleftrightarrow>
     length (bytes s) = 8 \<and>
     (state s = ds_idle \<or> (1 \<le> bytes_fetched s \<and> bytes_fetched s \<le> 8))"

definition stays_counted :: "fault + insn_decode \<Rightarrow> bool" where
  "stays_counted r = (case r of Inl e \<Rightarrow> e \<noteq> bytes_out_of_bounds | Inr s' \<Rightarrow> counted s')"

text \<open>
  The 6502 session after \<^verbatim>\<open>insn_decode_begin(0x1003, 0xAC)\<close> (LDY absolute, three bytes).
\<close>

definition ldy_6502_fetching :: insn_decode where
  "ldy_6502_fetching =
     \<lparr>state = ds_fetching, insn_address = 0x1003, resolved_address = 0,
      resolved_address_valid = False, next_state = Some ns_6502,
      bytes_required = 3, bytes_fetched = 1, addrmode = am6502_u16,
      bytes = [0xAC, 0, 0, 0, 0, 0, 0, 0], insn_string = ''''\<rparr>"

text \<open>
  The 6809 session after \<^verbatim>\<open>insn_decode_begin(0x1003, 0x14)\<close> and seven more bytes of 0.
\<close>

definition stalled_6809 :: insn_decode where
  "stalled_6809 =
     \<lparr>state = ds_fetching, insn_address = 0x1003, resolved_address = 0,
      resolved_address_valid = False, next_state = Some ns_6809,
      bytes_required = 0, bytes_fetched = 8, addrmode = am_invalid,
      bytes = [0x14, 0, 0, 0, 0, 0, 0, 0], insn_string = ''''\<rparr>"

text \<open>
  A 6809 session holding the five bytes of LDY with a 16-bit constant offset from X
  (10 AE 89 12 34); the sixth byte of the buffer, 0x56, is left from an earlier
  instruction.
\<close>

definition ldy_const_off16_6809 :: insn_decode where
  "ldy_const_off16_6809 =
     \<lparr>state = ds_fetching, insn_address = 0x2000, resolved_address = 0,
      resolved_address_valid = False, next_state = Some ns_6809,
      bytes_required = 5, bytes_fetched = 5, addrmode = am6809_const_off16,
      bytes = [0x10, 0xAE, 0x89, 0x12, 0x34, 0x56, 0, 0], insn_string = ''''\<rparr>"

text \<open>
  Storage that is not zero when \<^verbatim>\<open>insn_decode_init\<close> gets it: the counter of fetched
  bytes holds 100.
\<close>

definition dirty_session :: insn_decode where
  "dirty_session = zero_session\<lparr>bytes_fetched := 100\<rparr>"

section \<open>What the decode routines leave unchanged\<close>

lemma and_then_Inr [simp]: "and_then (Inr v) f = f v"
  by (simp add: and_then_def)

lemma and_then_Inl [simp]: "and_then (Inl e) f = Inl e"
  by (simp add: and_then_def)

lemma frame_refl [simp]: "frame s s"
  by (simp add: frame_def)

lemma keeps_Inr [simp]: "keeps s (Inr s') = frame s s'"
  by (simp add: keeps_def)

lemma keeps_Inl [simp]: "keeps s (Inl e) = (e \<noteq> bytes_out_of_bounds)"
  by (simp add: keeps_def)

lemma keeps_flag_Inr [simp]: "keeps_flag s (Inr (ok, s')) = frame s s'"
  by (simp add: keeps_flag_def)

lemma keeps_flag_Inl [simp]: "keeps_flag s (Inl e) = (e \<noteq> bytes_out_of_bounds)"
  by (simp add: keeps_flag_def)

lemma frame_trans: "frame s s1 \<Longrightarrow> frame s1 s2 \<Longrightarrow> frame s s2"
  by (simp add: frame_def)

lemma frame_keeps: "frame s s1 \<Longrightarrow> keeps s1 r \<Longrightarrow> keeps s r"
  by (cases r) (auto intro: frame_trans)

lemma frame_keeps_flag: "frame s s1 \<Longrightarrow> keeps_flag s1 r \<Longrightarrow> keeps_flag s r"
  by (cases r) (auto intro: frame_trans)

lemma keeps_and_then:
  assumes "keeps s r" and "\<And>s1. r = Inr s1 \<Longrightarrow> keeps s1 (f s1)"
  shows "keeps s (and_then r f)"
proof (cases r)
  case (Inl e)
  with assms(1) show ?thesis by simp
next
  case (Inr s1)
  with assms(1) have "frame s s1" by simp
  moreover from assms(2) Inr have "keeps s1 (f s1)" by simp
  ultimately have "keeps s (f s1)" by (rule frame_keeps)
  with Inr show ?thesis by simp
qed

lemma keeps_flag_and_then:
  assumes "keeps s r" and "\<And>s1. r = Inr s1 \<Longrightarrow> keeps_flag s1 (f s1)"
  shows "keeps_flag s (and_then r f)"
proof (cases r)
  case (Inl e)
  with assms(1) show ?thesis by simp
next
  case (Inr s1)
  with assms(1) have "frame s s1" by simp
  moreover from assms(2) Inr have "keeps_flag s1 (f s1)" by simp
  ultimately have "keeps_flag s (f s1)" by (rule frame_keeps_flag)
  with Inr show ?thesis by simp
qed

lemma keeps_of_flag:
  assumes "keeps_flag s r"
  shows "keeps s (and_then r (\<lambda>(ok, s1). Inr s1))"
  using assms by (cases r) auto

lemma print_into_no_store: "print_into e n str = Inl e' \<Longrightarrow> e' = e"
  by (simp add: print_into_def split: if_splits)

lemma keeps_store: "keeps s (store_insn_string str s)"
  by (simp add: store_insn_string_def print_into_def frame_def)

lemma keeps_returning: "keeps s r \<Longrightarrow> keeps_flag s (returning ok r)"
  by (cases r) (simp_all add: returning_def)

lemma keeps_format_6809: "keeps s (insn_decode_format_6809 s)"
  by (simp add: insn_decode_format_6809_def Let_def store_insn_string_def print_into_def
        frame_def split: option.split prod.split)

lemma keeps_format_6800: "keeps s (insn_decode_format_6800 s)"
  by (simp add: insn_decode_format_6800_def Let_def store_insn_string_def print_into_def
        frame_def split: addrmode_t.split)

lemma keeps_format_6502: "keeps s (insn_decode_format_6502 cpu s)"
  by (simp add: insn_decode_format_6502_def Let_def store_insn_string_def print_into_def
        frame_def split: addrmode_t.split option.split)

lemma z80_format_loop_no_store:
  "z80_format_loop bs buf curs opr_byte res \<noteq> Inl bytes_out_of_bounds"
proof (induction bs buf curs opr_byte res rule: z80_format_loop.induct)
  case (1 bs buf curs opr_byte res)
  show ?case
  proof (cases "z80_next_operand buf curs")
    case None
    then show ?thesis by (simp add: z80_format_loop.simps)
  next
    case (Some t)
    obtain cp mode curs' where t: "t = (cp, mode, curs')" by (cases t)
    show ?thesis
    proof (cases "z80_format_operand bs mode buf cp opr_byte")
      case (Inl e)
      then have "e = op_overrun"
        by (cases mode)
           (auto simp add: z80_format_operand_def Let_def and_then_def print_into_def
              split: if_splits)
      with Some t Inl show ?thesis by (simp add: z80_format_loop.simps)
    next
      case (Inr buf')
      have "z80_format_loop bs buf' curs' (opr_byte + z80_operand_size mode)
              (if mode = amz80_pcrel8 then Some (sint (bs ! opr_byte + 2)) else res)
            \<noteq> Inl bytes_out_of_bounds"
        by (rule "1.IH" [OF Some [unfolded t] refl refl Inr])
      with Some t Inr show ?thesis by (simp add: z80_format_loop.simps)
    qed
  qed
qed

lemma keeps_format_z80: "keeps s (insn_decode_format_z80 s)"
proof -
  let ?r = "z80_format_loop (bytes s) (insn_string s @ [NUL]) 0
     (if bytes s ! 0 = 0xcb \<or> bytes s ! 0 = 0xed then 2
      else if bytes s ! 0 = 0xdd \<or> bytes s ! 0 = 0xfd then 2 else 1) None"
  have "?r \<noteq> Inl bytes_out_of_bounds" by (rule z80_format_loop_no_store)
  then show ?thesis
    by (cases ?r)
       (auto simp add: insn_decode_format_z80_def Let_def frame_def split: option.split)
qed

lemma keeps_format_if_fetched:
  assumes "\<And>s. keeps s (format s)"
  shows "keeps s1 (format_if_fetched format s1)"
proof (cases "bytes_fetched s1 = bytes_required s1")
  case False
  then show ?thesis by (simp add: format_if_fetched_def)
next
  case True
  have "keeps s1 (and_then (format s1) (\<lambda>s2. Inr (s2\<lparr>state := ds_complete\<rparr>)))"
    by (rule keeps_and_then [OF assms]) (simp add: frame_def)
  with True show ?thesis by (simp add: format_if_fetched_def)
qed

lemma frame_resolve_6809: "frame s (insn_decode_resolve_6809 s)"
  by (simp add: insn_decode_resolve_6809_def Let_def frame_def)

lemma frame_resolve_6800: "frame s (insn_decode_resolve_6800 s)"
  by (simp add: insn_decode_resolve_6800_def Let_def frame_def split: addrmode_t.split)

lemma frame_resolve_6502: "frame s (insn_decode_resolve_6502 cpu s)"
  by (simp add: insn_decode_resolve_6502_def Let_def frame_def)

lemma keeps_next_state_6809: "keeps s (insn_decode_next_state_6809 s)"
  using frame_keeps [OF frame_resolve_6809 keeps_format_if_fetched, of insn_decode_format_6809 s]
  by (simp add: insn_decode_next_state_6809_def keeps_format_6809)

lemma keeps_next_state_6800: "keeps s (insn_decode_next_state_6800 s)"
  using frame_keeps [OF frame_resolve_6800 keeps_format_if_fetched, of insn_decode_format_6800 s]
  by (simp add: insn_decode_next_state_6800_def keeps_format_6800)

lemma keeps_next_state_6502: "keeps s (insn_decode_next_state_6502 cpu s)"
  using frame_keeps [OF frame_resolve_6502 keeps_format_if_fetched,
      of "insn_decode_format_6502 cpu" s cpu]
  by (simp add: insn_decode_next_state_6502_def keeps_format_6502)

lemma keeps_hl_to_index: "keeps_flag s (z80_hl_to_index s tmpl opc which)"
  by (simp add: z80_hl_to_index_def keeps_returning keeps_store split: option.split prod.split)

lemma keeps_flag_true:
  assumes "keeps_flag s r"
  shows "keeps_flag s (and_then r (\<lambda>(ok, s1). Inr (True, s1)))"
  using assms by (cases r) auto

lemma keeps_print_then:
  assumes "\<And>t. keeps_flag s (f t)"
  shows "keeps_flag s (and_then (print_into tbuf_overrun n str) f)"
  using assms by (simp add: print_into_def)

lemma keeps_cb_template: "keeps_flag s (z80_cb_template s opc)"
  unfolding z80_cb_template_def
  by (rule keeps_print_then)
     (simp add: keeps_flag_true keeps_hl_to_index keeps_returning keeps_store)

lemma keeps_insn_template: "keeps_flag s (z80_insn_template s)"
  by (simp add: z80_insn_template_def Let_def keeps_print_then keeps_flag_true
        keeps_hl_to_index keeps_returning keeps_store keeps_cb_template)

lemma frame_count_z80: "bytes_required s = 0 \<Longrightarrow> frame s s' \<Longrightarrow> frame s (insn_decode_count_z80 s')"
  by (simp add: insn_decode_count_z80_def Let_def frame_def)

lemma keeps_next_state_z80: "keeps s (insn_decode_next_state_z80 s)"
proof (cases "bytes_required s = 0")
  case False
  then show ?thesis
    by (simp add: insn_decode_next_state_z80_def keeps_format_if_fetched keeps_format_z80)
next
  case True
  have "keeps s (and_then (z80_insn_template s)
          (\<lambda>(ok, s'). if \<not> ok then Inr s'
                       else format_if_fetched insn_decode_format_z80 (insn_decode_count_z80 s')))"
  proof (cases "z80_insn_template s")
    case (Inl e)
    with keeps_insn_template [of s] show ?thesis by simp
  next
    case (Inr t)
    obtain ok s' where t: "t = (ok, s')" by (cases t)
    with Inr keeps_insn_template [of s] have fr: "frame s s'" by simp
    show ?thesis
    proof (cases ok)
      case False
      with Inr t fr show ?thesis by simp
    next
      case True
      have "frame s (insn_decode_count_z80 s')"
        using \<open>bytes_required s = 0\<close> fr by (rule frame_count_z80)
      then have "keeps s (format_if_fetched insn_decode_format_z80 (insn_decode_count_z80 s'))"
        by (rule frame_keeps) (rule keeps_format_if_fetched, rule keeps_format_z80)
      with Inr t True show ?thesis by simp
    qed
  qed
  with True show ?thesis by (simp add: insn_decode_next_state_z80_def)
qed

lemma keeps_call_next_state: "keeps s (call_next_state cpu f s)"
  by (cases f)
     (simp_all add: call_next_state_def keeps_next_state_6809 keeps_next_state_6800
        keeps_next_state_6502 keeps_next_state_z80)

lemma keeps_insn_decode_next_state: "keeps_flag s (insn_decode_next_state cpu s)"
proof (cases "next_state s")
  case None
  then show ?thesis by (simp add: insn_decode_next_state_def)
next
  case (Some f)
  have "keeps_flag s (and_then (call_next_state cpu f s)
      (\<lambda>s1. if state s = ds_fetching then
               (if state s1 = ds_complete \<and> resolved_address_valid s1 then
                  returning True
                    (store_insn_string
                       (insn_string s1 @ '' <'' @
                        fmt_X 4 (unat (resolved_address s1)) @ ''>'') s1)
                else Inr (True, s1))
             else Inr (False, s1)))"
    by (rule keeps_flag_and_then [OF keeps_call_next_state])
       (simp add: keeps_returning keeps_store)
  with Some show ?thesis by (simp add: insn_decode_next_state_def Let_def)
qed

text \<open>The flag of \<^verbatim>\<open>insn_decode_next_state\<close>.\<close>

lemma insn_decode_next_state_flag:
  "insn_decode_next_state cpu s = Inr (r, s') \<Longrightarrow>
     r = (state s = ds_fetching \<and> next_state s \<noteq> None)"
proof (cases "next_state s")
  case None
  assume "insn_decode_next_state cpu s = Inr (r, s')"
  with None show ?thesis by (simp add: insn_decode_next_state_def)
next
  case (Some f)
  assume a: "insn_decode_next_state cpu s = Inr (r, s')"
  show ?thesis
  proof (cases "call_next_state cpu f s")
    case (Inl e)
    with Some a show ?thesis by (simp add: insn_decode_next_state_def)
  next
    case (Inr s1)
    with Some a show ?thesis
      by (simp add: insn_decode_next_state_def Let_def returning_def store_insn_string_def
            print_into_def split: if_splits)
  qed
qed

section \<open>The counters under the driver\<close>

lemma stays_counted_begin:
  assumes "counted s"
  shows "stays_counted (insn_decode_begin cpu s addr b)"
proof (cases "next_state s \<noteq> None \<and> (state s = ds_idle \<or> state s = ds_complete)")
  case False
  then have "insn_decode_begin cpu s addr b = Inr s"
    unfolding insn_decode_begin_def by (rule if_not_P)
  with assms show ?thesis by (simp add: stays_counted_def)
next
  case True
  let ?t = "s\<lparr>state := ds_fetching, insn_address := addr, resolved_address := 0,
                resolved_address_valid := False, addrmode := am_invalid,
                bytes_required := 0, bytes_fetched := 1, bytes := (bytes s)[0 := b]\<rparr>"
  have k: "keeps_flag ?t (insn_decode_next_state cpu ?t)"
    by (rule keeps_insn_decode_next_state)
  have "stays_counted (and_then (insn_decode_next_state cpu ?t) (\<lambda>(r, s'). Inr s'))"
  proof (cases "insn_decode_next_state cpu ?t")
    case (Inl e)
    with k show ?thesis by (simp add: stays_counted_def)
  next
    case (Inr p)
    obtain r s' where p: "p = (r, s')" by (cases p)
    with Inr k have "frame ?t s'" by simp
    with assms have "counted s'" by (simp add: frame_def counted_def)
    with Inr p show ?thesis by (simp add: stays_counted_def)
  qed
  moreover from True have "insn_decode_begin cpu s addr b =
      and_then (insn_decode_next_state cpu ?t) (\<lambda>(r, s'). Inr s')"
    unfolding insn_decode_begin_def by (rule if_P)
  ultimately show ?thesis by simp
qed

lemma store_decode_overflow:
  "store_insn_string ''<decode overflow>'' s = Inr (s\<lparr>insn_string := ''<decode overflow>''\<rparr>)"
  by (simp add: store_insn_string_def print_into_def INSN_DECODE_MAXSTRING_def)

lemma stays_counted_continue:
  assumes "counted s"
  shows "stays_counted (and_then (insn_decode_continue cpu s b) (\<lambda>(r, s'). Inr s'))"
proof (cases "state s = ds_fetching")
  case False
  with assms show ?thesis by (simp add: insn_decode_continue_def stays_counted_def)
next
  case True
  with assms have r: "1 \<le> bytes_fetched s" "bytes_fetched s \<le> 8" "length (bytes s) = 8"
    by (simp_all add: counted_def)
  show ?thesis
  proof (cases "bytes_fetched s = 8")
    case True
    with \<open>state s = ds_fetching\<close> r show ?thesis
      by (simp add: insn_decode_continue_def INSN_DECODE_MAXBYTES_def store_decode_overflow
            stays_counted_def counted_def)
  next
    case False
    let ?t = "s\<lparr>bytes := (bytes s)[nat (bytes_fetched s) := b],
                  bytes_fetched := bytes_fetched s + 1\<rparr>"
    have k: "keeps_flag ?t (insn_decode_next_state cpu ?t)"
      by (rule keeps_insn_decode_next_state)
    have "stays_counted (and_then (insn_decode_next_state cpu ?t) (\<lambda>(r, s'). Inr s'))"
    proof (cases "insn_decode_next_state cpu ?t")
      case (Inl e)
      with k show ?thesis by (simp add: stays_counted_def)
    next
      case (Inr p)
      obtain fl s' where p: "p = (fl, s')" by (cases p)
      with Inr k have "frame ?t s'" by simp
      with r False have "counted s'" by (simp add: frame_def counted_def)
      with Inr p show ?thesis by (simp add: stays_counted_def)
    qed
    with False r \<open>state s = ds_fetching\<close> show ?thesis
      by (simp add: insn_decode_continue_def INSN_DECODE_MAXBYTES_def)
  qed
qed

lemma stays_counted_run: "counted s \<Longrightarrow> stays_counted (run cpu s calls)"
proof (induction calls arbitrary: s)
  case Nil
  then show ?case by (simp add: stays_counted_def)
next
  case (Cons c calls)
  have step: "stays_counted (do_call cpu s c)"
    using Cons.prems by (cases c) (simp_all add: stays_counted_begin stays_counted_continue)
  show ?case
  proof (cases "do_call cpu s c")
    case (Inl e)
    with step show ?thesis by (simp add: stays_counted_def)
  next
    case (Inr s1)
    with step have "counted s1" by (simp add: stays_counted_def)
    then have "stays_counted (run cpu s1 calls)" by (rule Cons.IH)
    with Inr show ?thesis by simp
  qed
qed

lemma counted_init: "length (bytes s0) = 8 \<Longrightarrow> counted (insn_decode_init cpu s0)"
  by (cases cpu) (simp_all add: counted_def insn_decode_init_def)

lemma continue_bytes_required:
  assumes "bytes_required s \<noteq> 0" and "insn_decode_continue cpu s b = Inr (r, s')"
  shows "bytes_required s' = bytes_required s"
proof (cases "state s = ds_fetching")
  case False
  with assms(2) show ?thesis by (simp add: insn_decode_continue_def)
next
  case True
  show ?thesis
  proof (cases "bytes_fetched s = INSN_DECODE_MAXBYTES")
    case True
    with \<open>state s = ds_fetching\<close> assms(2) show ?thesis
      by (auto simp add: insn_decode_continue_def store_decode_overflow)
  next
    case False
    let ?t = "s\<lparr>bytes := (bytes s)[nat (bytes_fetched s) := b],
                  bytes_fetched := bytes_fetched s + 1\<rparr>"
    from False \<open>state s = ds_fetching\<close> assms(2)
    have "insn_decode_next_state cpu ?t = Inr (r, s')"
      by (simp add: insn_decode_continue_def split: if_splits)
    with keeps_insn_decode_next_state [of ?t cpu] have "frame ?t s'" by simp
    with assms(1) show ?thesis by (simp add: frame_def)
  qed
qed

section \<open>Evaluation on concrete sessions\<close>

lemma hex_digits_small: "n < 16 \<Longrightarrow> hex_digits n = [hexdigit n]"
  by (simp add: hex_digits.simps)

lemma hex_digits_large:
  "\<not> n < 16 \<Longrightarrow> hex_digits n = hex_digits (n div 16) @ [hexdigit (n mod 16)]"
  by (subst hex_digits.simps) simp

lemma dec_digits_small: "n < 10 \<Longrightarrow> dec_digits n = [hexdigit n]"
  by (simp add: dec_digits.simps)

lemma dec_digits_large:
  "\<not> n < 10 \<Longrightarrow> dec_digits n = dec_digits (n div 10) @ [hexdigit (n mod 10)]"
  by (subst dec_digits.simps) simp

lemma memcpy_numeral:
  "memcpy buf p src (numeral k) =
     (memcpy buf p src (pred_numeral k))[p + pred_numeral k := src ! pred_numeral k]"
  by (simp add: numeral_eq_Suc)

lemmas fmt_eval = fmt_d_def fmt_X_def fmt_u_def fmt_d_left_def hexdigit_def
  hex_digits_small hex_digits_large dec_digits_small dec_digits_large

lemmas driver_eval = insn_decode_init_def zero_session_def insn_decode_begin_def
  insn_decode_continue_def insn_decode_next_state_def call_next_state_def
  INSN_DECODE_MAXBYTES_def INSN_DECODE_MAXSTRING_def Let_def store_insn_string_def
  print_into_def returning_def format_if_fetched_def

lemmas m6809_eval = insn_decode_next_state_6809_def insn_decode_resolve_6809_def
  insn_decode_addrmode_6809_def indexed_need2_6809_def insn_decode_addrmode_indexed_6809_def
  am6809_first_def am6809_last_def insn_postbytes_6809_def insn_decode_format_6809_def
  insn_decode_format_6809_switch_def insn_decode_format_6809_opc_def am6809_resolves_def
  am6809_indirect_p_def opcodes_6809_def index_regnames_def read_s16be_def read_u16be_def

lemmas z80_eval = insn_decode_next_state_z80_def insn_decode_count_z80_def
  z80_insn_template_def z80_cb_template_def z80_hl_to_index_def opcodes_CB_def ld_regs_def
  z80_operand_bytes.simps z80_next_operand.simps z80_operand_types_def NUL_def
  z80_operand_size_def

lemmas m6502_eval = insn_decode_next_state_6502_def insn_decode_resolve_6502_def
  insn_decode_format_6502_def opcodes_6502_def opcodes_65c02_def read_u16le_def
  memcpy_numeral

lemmas m6800_eval = insn_decode_next_state_6800_def insn_decode_resolve_6800_def
  insn_decode_addrmode_6800_def insn_decode_format_6800_def opcodes_6800_def read_u16be_def

lemma run_6502_ldy_begin:
  "insn_decode_begin cpu_6502 (insn_decode_init cpu_6502 zero_session) 0x1003 0xAC =
     Inr ldy_6502_fetching"
  by (simp add: ldy_6502_fetching_def driver_eval m6502_eval)

lemma run_6502_ldy_second:
  "insn_decode_continue cpu_6502 ldy_6502_fetching 0x00 =
     Inr (True, ldy_6502_fetching\<lparr>bytes_fetched := 2\<rparr>)"
  by (simp add: ldy_6502_fetching_def driver_eval m6502_eval)

lemma run_6502_ldy_rest:
  "run cpu_6502 ldy_6502_fetching [Continue 0x00, Continue 0x30] =
     Inr \<lparr>state = ds_complete, insn_address = 0x1003, resolved_address = 0,
          resolved_address_valid = False, next_state = Some ns_6502,
          bytes_required = 3, bytes_fetched = 3, addrmode = am6502_u16,
          bytes = [0xAC, 0, 0x30, 0, 0, 0, 0, 0], insn_string = ''LDY $3000''\<rparr>"
  by (simp add: ldy_6502_fetching_def driver_eval m6502_eval fmt_eval)

text \<open>
  LDA $8000 on the 6502: the operand is negative as an \<^verbatim>\<open>int16_t\<close>, and its eight
  digits overrun \<^verbatim>\<open>op\<close>.
\<close>

lemma run_6502_lda_overrun:
  "run cpu_6502 (insn_decode_init cpu_6502 zero_session)
     [Begin 0x1000 0xAD, Continue 0x00, Continue 0x80] = Inl op_overrun"
  by (simp add: driver_eval m6502_eval fmt_eval)

lemma run_6809_bra:
  "run cpu_6809 (insn_decode_init cpu_6809 zero_session) [Begin 0x1003 0x20, Continue 0xFD] =
     Inr \<lparr>state = ds_complete, insn_address = 0x1003, resolved_address = 0x1000,
          resolved_address_valid = True, next_state = Some ns_6809,
          bytes_required = 2, bytes_fetched = 2, addrmode = am6809_rel8,
          bytes = [0x20, 0xFD, 0, 0, 0, 0, 0, 0], insn_string = ''BRA -3 <1000>''\<rparr>"
  by (simp add: driver_eval m6809_eval fmt_eval)

text \<open>The 6800 routine, on the same two bytes at the same address, adds the length.\<close>

lemma run_6800_bra:
  "run cpu_6800 (insn_decode_init cpu_6800 zero_session) [Begin 0x1003 0x20, Continue 0xFD] =
     Inr \<lparr>state = ds_complete, insn_address = 0x1003, resolved_address = 0x1002,
          resolved_address_valid = True, next_state = Some ns_6800,
          bytes_required = 2, bytes_fetched = 2, addrmode = am6800_rel,
          bytes = [0x20, 0xFD, 0, 0, 0, 0, 0, 0], insn_string = ''BRA -3 <1002>''\<rparr>"
  by (simp add: driver_eval m6800_eval fmt_eval)

text \<open>
  LEAY [-32768,PCR] at 0x1000 on the 6809: the string with its annotation has 28
  characters, one more than \<^verbatim>\<open>insn_string\<close> holds before the terminator.
\<close>

lemma run_6809_leay_overrun:
  "run cpu_6809 (insn_decode_init cpu_6809 zero_session)
     [Begin 0x1000 0x31, Continue 0x9D, Continue 0x80, Continue 0x00] =
     Inl insn_string_overrun"
  by (simp add: driver_eval m6809_eval fmt_eval)

lemma run_6809_ldy_pcrel8:
  "run cpu_6809 (insn_decode_init cpu_6809 zero_session)
     [Begin 0x1000 0x10, Continue 0xAE, Continue 0x8C, Continue 0x05] =
     Inr \<lparr>state = ds_complete, insn_address = 0x1000, resolved_address = 0x1000,
          resolved_address_valid = True, next_state = Some ns_6809,
          bytes_required = 4, bytes_fetched = 4, addrmode = am6809_pcrel8,
          bytes = [0x10, 0xAE, 0x8C, 0x05, 0, 0, 0, 0],
          insn_string = ''LDY 0,PCR <1000>''\<rparr>"
  by (simp add: driver_eval m6809_eval fmt_eval)

text \<open>Without the page prefix the same mode reads the offset byte of the instruction.\<close>

lemma run_6809_ldb_pcrel8:
  "run cpu_6809 (insn_decode_init cpu_6809 zero_session)
     [Begin 0x1000 0xE6, Continue 0x8C, Continue 0x05] =
     Inr \<lparr>state = ds_complete, insn_address = 0x1000, resolved_address = 0x1005,
          resolved_address_valid = True, next_state = Some ns_6809,
          bytes_required = 3, bytes_fetched = 3, addrmode = am6809_pcrel8,
          bytes = [0xE6, 0x8C, 0x05, 0, 0, 0, 0, 0],
          insn_string = ''LDB 5,PCR <1005>''\<rparr>"
  by (simp add: driver_eval m6809_eval fmt_eval)

lemma run_6809_illegal_begin:
  "run cpu_6809 (insn_decode_init cpu_6809 zero_session) [Begin 0x1003 0x14] =
     Inr (stalled_6809\<lparr>bytes_fetched := 1\<rparr>)"
  by (simp add: stalled_6809_def driver_eval m6809_eval)

lemma run_6809_illegal_full:
  "run cpu_6809 (insn_decode_init cpu_6809 zero_session)
     [Begin 0x1003 0x14, Continue 0, Continue 0, Continue 0, Continue 0, Continue 0,
      Continue 0, Continue 0] = Inr stalled_6809"
  by (simp add: stalled_6809_def driver_eval m6809_eval)

lemma run_6809_illegal_overflow:
  "insn_decode_continue cpu_6809 stalled_6809 b =
     Inr (False, stalled_6809\<lparr>insn_string := ''<decode overflow>'', state := ds_complete\<rparr>)"
  by (simp add: stalled_6809_def insn_decode_continue_def INSN_DECODE_MAXBYTES_def
        store_decode_overflow)

lemma run_6809_illegal_ninth:
  "run cpu_6809 (insn_decode_init cpu_6809 zero_session)
     [Begin 0x1003 0x14, Continue 0, Continue 0, Continue 0, Continue 0, Continue 0,
      Continue 0, Continue 0, Continue 0] =
     Inr (stalled_6809\<lparr>insn_string := ''<decode overflow>'', state := ds_complete\<rparr>)"
  by (simp add: stalled_6809_def driver_eval m6809_eval)

lemma run_z80_ddcb:
  "run cpu_z80 (insn_decode_init cpu_z80 zero_session)
     [Begin 0x1000 0xDD, Continue 0xCB, Continue 0x05, Continue 0x00] =
     Inr \<lparr>state = ds_fetching, insn_address = 0x1000, resolved_address = 0,
          resolved_address_valid = False, next_state = Some ns_z80,
          bytes_required = 3, bytes_fetched = 4, addrmode = am_invalid,
          bytes = [0xDD, 0xCB, 0x05, 0, 0, 0, 0, 0], insn_string = ''RLC B''\<rparr>"
  by (simp add: driver_eval z80_eval)

text \<open>With the documented register operand (HL) the same prefix chain completes.\<close>

lemma run_z80_ddcb_hl:
  "run cpu_z80 (insn_decode_init cpu_z80 zero_session)
     [Begin 0x1000 0xDD, Continue 0xCB, Continue 0x05, Continue 0x06] =
     Inr \<lparr>state = ds_complete, insn_address = 0x1000, resolved_address = 0,
          resolved_address_valid = False, next_state = Some ns_z80,
          bytes_required = 4, bytes_fetched = 4, addrmode = am_invalid,
          bytes = [0xDD, 0xCB, 0x05, 0x06, 0, 0, 0, 0], insn_string = ''RLC (IX+5)''\<rparr>"
  by (simp add: driver_eval z80_eval insn_decode_format_z80_def z80_format_loop.simps
        z80_format_operand_def z80_collapse_def z80_to_blank.simps z80_past_blanks.simps
        z80_copy_down.simps cstring_def fmt_eval memcpy_numeral)

section \<open>The length of what the 6809 formatter prints for a 16-bit constant offset\<close>

lemma length_dec_digits_le: "n < 10 ^ k \<Longrightarrow> 0 < k \<Longrightarrow> length (dec_digits n) \<le> k"
proof (induction n arbitrary: k rule: dec_digits.induct)
  case (1 n)
  show ?case
  proof (cases "n < 10")
    case True
    with "1.prems" show ?thesis by (simp add: dec_digits_small)
  next
    case False
    with "1.prems" have "1 < k" by (cases "k = 1") auto
    then obtain j where j: "k = Suc j" "0 < j" by (cases k) auto
    from "1.prems" j have "n div 10 < 10 ^ j"
      by (simp add: less_mult_imp_div_less mult.commute)
    with "1.IH" [OF False] j have "length (dec_digits (n div 10)) \<le> j" by simp
    with False j show ?thesis by (simp add: dec_digits_large)
  qed
qed

lemma length_fmt_d_s16: "length (fmt_d (read_s16be bs k)) \<le> 6"
proof -
  let ?w = "read_u16be bs k"
  have lo: "- 32768 \<le> sint ?w" using sint_ge [of ?w] by simp
  have hi: "sint ?w < 32768" using sint_lt [of ?w] by simp
  show ?thesis
  proof (cases "sint ?w < 0")
    case True
    with lo have "nat (- sint ?w) < 10 ^ 5" by simp
    then have "length (dec_digits (nat (- sint ?w))) \<le> 5"
      by (rule length_dec_digits_le) simp
    with True show ?thesis by (simp add: fmt_d_def read_s16be_def)
  next
    case False
    with hi have "nat (sint ?w) < 10 ^ 5" by simp
    then have "length (dec_digits (nat (sint ?w))) \<le> 5"
      by (rule length_dec_digits_le) simp
    with False show ?thesis by (simp add: fmt_d_def read_s16be_def)
  qed
qed

lemma length_opcodes_6809: "length (opcodes_6809 ! unat (b :: 8 word)) \<le> 5"
proof -
  have all: "list_all (\<lambda>t. length t \<le> 5) opcodes_6809"
    by (simp add: opcodes_6809_def)
  have len: "length opcodes_6809 = 256"
    by (simp add: opcodes_6809_def)
  have "unat b < 256" using unsigned_less [of b] by simp
  with all len show ?thesis by (simp add: list_all_length)
qed

lemma length_opcodes_long_6809:
  "length (opcodes_long_cond_branches_6809 ! unat ((x :: 32 word) AND 0xf)) \<le> 5"
proof -
  have all: "list_all (\<lambda>t. length t \<le> 5) opcodes_long_cond_branches_6809"
    by (simp add: opcodes_long_cond_branches_6809_def)
  have len: "length opcodes_long_cond_branches_6809 = 16"
    by (simp add: opcodes_long_cond_branches_6809_def)
  have "x AND 0xf \<le> 0xf" by (rule word_and_le1)
  then have "unat (x AND 0xf) < 16" by (simp add: word_le_nat_alt)
  with all len show ?thesis by (simp add: list_all_length)
qed

lemma length_if_le: "length a \<le> n \<Longrightarrow> length b \<le> n \<Longrightarrow> length (if c then a else b) \<le> n"
  by simp

lemma length_format_6809_opc: "length (insn_decode_format_6809_opc bs) \<le> 5"
  unfolding insn_decode_format_6809_opc_def Let_def
  by (intro length_if_le length_opcodes_6809 length_opcodes_long_6809) simp_all

lemma length_index_regname: "length (index_regnames ! unat ((x :: 8 word) AND 3)) = 1"
proof -
  have all: "list_all (\<lambda>t. length t = 1) index_regnames"
    by (simp add: index_regnames_def)
  have len: "length index_regnames = 4"
    by (simp add: index_regnames_def)
  have "x AND 3 \<le> 3" by (rule word_and_le1)
  then have "unat (x AND 3) < 4" by (simp add: word_le_nat_alt)
  with all len show ?thesis by (simp add: list_all_length)
qed

section \<open>The claims\<close>

text \<open>
  C1. Claim: for every architecture and every first opcode byte, feeding the bytes of the
  declared length leaves the session Complete with a non-empty string of at most 28
  characters. On the 6809 the first byte 0x14 has no addressing mode:
  \<^verbatim>\<open>insn_decode_addrmode_6809\<close> answers \<^verbatim>\<open>am_invalid\<close>, \<^verbatim>\<open>bytes_required\<close> stays 0, and
  the formatter, whose \<^verbatim>\<open><?ADDRMODE?>\<close> text is meant for this case, is never called. The
  session is still Fetching, with no length declared and an empty string, after the
  first byte and after each of seven more; only the ninth byte ends it, as a decode
  overflow.
\<close>

theorem illegal_6809_opcode_stalls:
  "run cpu_6809 (insn_decode_init cpu_6809 zero_session) [Begin 0x1003 0x14] =
     Inr \<lparr>state = ds_fetching, insn_address = 0x1003, resolved_address = 0,
          resolved_address_valid = False, next_state = Some ns_6809,
          bytes_required = 0, bytes_fetched = 1, addrmode = am_invalid,
          bytes = [0x14, 0, 0, 0, 0, 0, 0, 0], insn_string = ''''\<rparr> \<and>
   run cpu_6809 (insn_decode_init cpu_6809 zero_session)
     [Begin 0x1003 0x14, Continue 0, Continue 0, Continue 0, Continue 0, Continue 0,
      Continue 0, Continue 0] =
     Inr \<lparr>state = ds_fetching, insn_address = 0x1003, resolved_address = 0,
          resolved_address_valid = False, next_state = Some ns_6809,
          bytes_required = 0, bytes_fetched = 8, addrmode = am_invalid,
          bytes = [0x14, 0, 0, 0, 0, 0, 0, 0], insn_string = ''''\<rparr> \<and>
   run cpu_6809 (insn_decode_init cpu_6809 zero_session)
     [Begin 0x1003 0x14, Continue 0, Continue 0, Continue 0, Continue 0, Continue 0,
      Continue 0, Continue 0, Continue 0] =
     Inr \<lparr>state = ds_complete, insn_address = 0x1003, resolved_address = 0,
          resolved_address_valid = False, next_state = Some ns_6809,
          bytes_required = 0, bytes_fetched = 8, addrmode = am_invalid,
          bytes = [0x14, 0, 0, 0, 0, 0, 0, 0], insn_string = ''<decode overflow>''\<rparr>"
  unfolding run_6809_illegal_begin run_6809_illegal_full run_6809_illegal_ninth
  by (simp add: stalled_6809_def)

text \<open>
  C2. Claim: \<^verbatim>\<open>bytes_fetched <= bytes_required\<close> whenever \<^verbatim>\<open>bytes_required > 0\<close>. On the
  Z80 the chain DD CB d op needs its fourth byte before a template exists; when the
  operand of that byte is a plain register the template has no displacement, so the
  length is set to 3 with 4 bytes already fetched, and the session stays Fetching.
\<close>

theorem z80_ddcb_fetched_exceeds_required:
  "run cpu_z80 (insn_decode_init cpu_z80 zero_session)
      [Begin 0x1000 0xDD, Continue 0xCB, Continue 0x05, Continue 0x00] =
     Inr \<lparr>state = ds_fetching, insn_address = 0x1000, resolved_address = 0,
          resolved_address_valid = False, next_state = Some ns_z80,
          bytes_required = 3, bytes_fetched = 4, addrmode = am_invalid,
          bytes = [0xDD, 0xCB, 0x05, 0, 0, 0, 0, 0], insn_string = ''RLC B''\<rparr>"
  by (rule run_z80_ddcb)

text \<open>
  C3, as amended. Take a session over an eight-byte array, set up by
  \<^verbatim>\<open>insn_decode_init\<close> and driven by any calls of \<^verbatim>\<open>insn_decode_begin\<close> and
  \<^verbatim>\<open>insn_decode_continue\<close>. No call stores a byte outside the array: the only way a run
  breaks off is a formatter overrunning a text buffer. In the session a run arrives at,
  the array still has eight places, and \<^verbatim>\<open>bytes_fetched\<close> is between 1 and 8 unless the
  session is still Idle, where \<^verbatim>\<open>insn_decode_init\<close> has left the counter as it found it.
  When the session is Fetching with 8 bytes, \<^verbatim>\<open>insn_decode_continue\<close> stores nothing,
  sets the string to \<^verbatim>\<open><decode overflow>\<close>, makes the state Complete and returns false.
\<close>

theorem bytes_fetched_bounded_once_begun:
  assumes "length (bytes s0) = 8"
  shows "case run cpu (insn_decode_init cpu s0) calls of
           Inl e \<Rightarrow> e \<noteq> bytes_out_of_bounds
         | Inr s \<Rightarrow>
             length (bytes s) = 8 \<and>
             (state s = ds_idle \<or> (1 \<le> bytes_fetched s \<and> bytes_fetched s \<le> 8)) \<and>
             (state s = ds_fetching \<and> bytes_fetched s = 8 \<longrightarrow>
                insn_decode_continue cpu s b =
                  Inr (False, s\<lparr>insn_string := ''<decode overflow>'', state := ds_complete\<rparr>))"
proof -
  have "counted (insn_decode_init cpu s0)" using assms by (rule counted_init)
  then have sc: "stays_counted (run cpu (insn_decode_init cpu s0) calls)"
    by (rule stays_counted_run)
  show ?thesis
  proof (cases "run cpu (insn_decode_init cpu s0) calls")
    case (Inl e)
    with sc show ?thesis by (simp add: stays_counted_def)
  next
    case (Inr s)
    with sc have "counted s" by (simp add: stays_counted_def)
    moreover have "insn_decode_continue cpu s b =
        Inr (False, s\<lparr>insn_string := ''<decode overflow>'', state := ds_complete\<rparr>)"
      if "state s = ds_fetching" "bytes_fetched s = 8"
      using that
      by (simp add: insn_decode_continue_def INSN_DECODE_MAXBYTES_def store_decode_overflow)
    ultimately show ?thesis using Inr by (simp add: counted_def)
  qed
qed

theorem bytes_fetched_bounded_once_begun_witness:
  "length (bytes zero_session) = 8 \<and>
   run cpu_6809 (insn_decode_init cpu_6809 zero_session)
     [Begin 0x1003 0x14, Continue 0, Continue 0, Continue 0, Continue 0, Continue 0,
      Continue 0, Continue 0] = Inr stalled_6809 \<and>
   state stalled_6809 = ds_fetching \<and> bytes_fetched stalled_6809 = 8 \<and>
   length (bytes stalled_6809) = 8 \<and>
   insn_decode_continue cpu_6809 stalled_6809 0x55 =
     Inr (False, stalled_6809\<lparr>insn_string := ''<decode overflow>'', state := ds_complete\<rparr>)"
proof -
  have h: "length (bytes zero_session) = 8" by (simp add: zero_session_def)
  have f: "state stalled_6809 = ds_fetching" "bytes_fetched stalled_6809 = 8"
    by (simp_all add: stalled_6809_def)
  from bytes_fetched_bounded_once_begun [OF h, where cpu = cpu_6809 and b = "0x55" and
      calls = "[Begin 0x1003 0x14, Continue 0, Continue 0, Continue 0, Continue 0,
        Continue 0, Continue 0, Continue 0]", unfolded run_6809_illegal_full]
  have "length (bytes stalled_6809) = 8 \<and>
        insn_decode_continue cpu_6809 stalled_6809 0x55 =
          Inr (False, stalled_6809\<lparr>insn_string := ''<decode overflow>'',
                                      state := ds_complete\<rparr>)"
    by (simp add: f)
  with h f run_6809_illegal_full show ?thesis by blast
qed

text \<open>
  C3 as stated fails on a session whose storage was not zero: \<^verbatim>\<open>insn_decode_init\<close> sets
  the state and the routine only, so the counter keeps its 100, and
  \<^verbatim>\<open>insn_decode_continue\<close> on the idle session leaves it there.
\<close>

theorem bytes_fetched_counterexample:
  "run cpu_6502 (insn_decode_init cpu_6502 dirty_session) [Continue 0x00, Continue 0x00] =
     Inr (insn_decode_init cpu_6502 dirty_session) \<and>
   bytes_fetched (insn_decode_init cpu_6502 dirty_session) = 100 \<and>
   \<not> bytes_fetched (insn_decode_init cpu_6502 dirty_session) \<le> 8"
  by (simp add: dirty_session_def zero_session_def insn_decode_init_def
        insn_decode_continue_def)

text \<open>
  C4, as amended. A call of \<^verbatim>\<open>insn_decode_continue\<close> that returns, returns true exactly
  when the session was Fetching with fewer than 8 bytes and a decode routine is
  configured, that is, when the byte was taken and the routine was run, whether or not
  the session left the Fetching state. It returns false when the session was not
  Fetching, and also on the forced overflow completion. A call does not return only when
  the session was Fetching with a count other than 8 (a formatter overruns a text
  buffer, or the count is outside the array).
\<close>

theorem insn_decode_continue_returns_was_fetching:
  "case insn_decode_continue cpu s b of
     Inr (r, s') \<Rightarrow>
       (r \<longleftrightarrow> state s = ds_fetching \<and> bytes_fetched s < 8 \<and> next_state s \<noteq> None)
   | Inl e \<Rightarrow> state s = ds_fetching \<and> bytes_fetched s \<noteq> 8"
proof (cases "state s = ds_fetching")
  case False
  then show ?thesis by (simp add: insn_decode_continue_def)
next
  case f: True
  show ?thesis
  proof (cases "bytes_fetched s = 8")
    case True
    with f show ?thesis
      by (simp add: insn_decode_continue_def INSN_DECODE_MAXBYTES_def store_decode_overflow)
  next
    case ne: False
    show ?thesis
    proof (cases "0 \<le> bytes_fetched s \<and> bytes_fetched s < 8")
      case False
      with f ne have "insn_decode_continue cpu s b = Inl bytes_out_of_bounds"
        unfolding insn_decode_continue_def INSN_DECODE_MAXBYTES_def by auto
      with f ne show ?thesis by simp
    next
      case True
      let ?t = "s\<lparr>bytes := (bytes s)[nat (bytes_fetched s) := b],
                    bytes_fetched := bytes_fetched s + 1\<rparr>"
      from f ne True have c: "insn_decode_continue cpu s b = insn_decode_next_state cpu ?t"
        by (simp add: insn_decode_continue_def INSN_DECODE_MAXBYTES_def)
      show ?thesis
      proof (cases "insn_decode_next_state cpu ?t")
        case (Inl e)
        with c f ne show ?thesis by simp
      next
        case (Inr p)
        obtain r s' where p: "p = (r, s')" by (cases p)
        from Inr p have "insn_decode_next_state cpu ?t = Inr (r, s')" by simp
        then have "r = (state ?t = ds_fetching \<and> next_state ?t \<noteq> None)"
          by (rule insn_decode_next_state_flag)
        with c Inr p f True show ?thesis by simp
      qed
    qed
  qed
qed

theorem insn_decode_continue_returns_was_fetching_witness:
  "insn_decode_continue cpu_6502 ldy_6502_fetching 0x00 =
     Inr (True, ldy_6502_fetching\<lparr>bytes_fetched := 2\<rparr>) \<and>
   state ldy_6502_fetching = ds_fetching \<and> bytes_fetched ldy_6502_fetching < 8 \<and>
   next_state ldy_6502_fetching \<noteq> None"
proof -
  from insn_decode_continue_returns_was_fetching
      [where cpu = cpu_6502 and s = ldy_6502_fetching and b = "0x00",
       unfolded run_6502_ldy_second]
  have "state ldy_6502_fetching = ds_fetching \<and> bytes_fetched ldy_6502_fetching < 8 \<and>
        next_state ldy_6502_fetching \<noteq> None"
    by simp
  with run_6502_ldy_second show ?thesis by blast
qed

text \<open>
  C4 as stated fails. On the 6502, after \<^verbatim>\<open>insn_decode_begin(0x1003, 0xAC)\<close> the call
  \<^verbatim>\<open>insn_decode_continue(0x00)\<close> returns true and the session is still Fetching (LDY
  needs a third byte). On the 6809, the ninth byte of the stalled session above forces
  the state to Complete and the call returns false.
\<close>

theorem continue_result_counterexample:
  "insn_decode_begin cpu_6502 (insn_decode_init cpu_6502 zero_session) 0x1003 0xAC =
     Inr ldy_6502_fetching \<and>
   insn_decode_continue cpu_6502 ldy_6502_fetching 0x00 =
     Inr (True, ldy_6502_fetching\<lparr>bytes_fetched := 2\<rparr>) \<and>
   state (ldy_6502_fetching\<lparr>bytes_fetched := 2\<rparr>) = ds_fetching \<and>
   state stalled_6809 = ds_fetching \<and>
   insn_decode_continue cpu_6809 stalled_6809 0x00 =
     Inr (False, stalled_6809\<lparr>insn_string := ''<decode overflow>'', state := ds_complete\<rparr>)"
  by (simp add: run_6502_ldy_begin run_6502_ldy_second run_6809_illegal_overflow)
     (simp add: ldy_6502_fetching_def stalled_6809_def)

text \<open>
  C5. Claim: on the 6809, \<^verbatim>\<open>begin(0x1003, 0x20)\<close> and \<^verbatim>\<open>continue(0xFD)\<close> give
  \<^verbatim>\<open>BRA -3 <1002>\<close>. The 6809 formatter adds the offset to the address of the
  instruction without the length of the instruction, which the 6800, 6502 and Z80
  formatters add: the string is \<^verbatim>\<open>BRA -3 <1000>\<close>.
\<close>

theorem bra_6809_target_omits_length:
  "run cpu_6809 (insn_decode_init cpu_6809 zero_session) [Begin 0x1003 0x20, Continue 0xFD] =
     Inr \<lparr>state = ds_complete, insn_address = 0x1003, resolved_address = 0x1000,
          resolved_address_valid = True, next_state = Some ns_6809,
          bytes_required = 2, bytes_fetched = 2, addrmode = am6809_rel8,
          bytes = [0x20, 0xFD, 0, 0, 0, 0, 0, 0], insn_string = ''BRA -3 <1000>''\<rparr> \<and>
   ''BRA -3 <1000>'' \<noteq> ''BRA -3 <1002>''"
  unfolding run_6809_bra by simp

text \<open>
  C6. Claim: for every 6809 instruction in a relative or PC-relative mode the formatter
  sets the resolved address to the instruction address plus the signed offset. For
  pcrel8 and pcrel8_ind the formatter reads the offset at index \<open>i + i\<close> of the
  buffer, where pcrel16 and const_off8 read at \<open>i + 1\<close>. After a page prefix \<open>i\<close> is
  2: LDY 5,PCR (10 AE 8C 05) has its offset 5 in \<^verbatim>\<open>bytes[3]\<close>, and the formatter takes
  \<^verbatim>\<open>bytes[4]\<close>, a byte that is not part of the instruction, here 0: it prints offset 0
  and resolves to 0x1000 + 0. Without the prefix \<open>i + i = i + 1\<close>, and LDB 5,PCR
  (E6 8C 05) at the same address resolves to 0x1000 + 5.
\<close>

theorem pcrel8_after_prefix_reads_past_instruction:
  "run cpu_6809 (insn_decode_init cpu_6809 zero_session)
     [Begin 0x1000 0x10, Continue 0xAE, Continue 0x8C, Continue 0x05] =
     Inr \<lparr>state = ds_complete, insn_address = 0x1000, resolved_address = 0x1000,
          resolved_address_valid = True, next_state = Some ns_6809,
          bytes_required = 4, bytes_fetched = 4, addrmode = am6809_pcrel8,
          bytes = [0x10, 0xAE, 0x8C, 0x05, 0, 0, 0, 0],
          insn_string = ''LDY 0,PCR <1000>''\<rparr> \<and>
   run cpu_6809 (insn_decode_init cpu_6809 zero_session)
     [Begin 0x1000 0xE6, Continue 0x8C, Continue 0x05] =
     Inr \<lparr>state = ds_complete, insn_address = 0x1000, resolved_address = 0x1005,
          resolved_address_valid = True, next_state = Some ns_6809,
          bytes_required = 3, bytes_fetched = 3, addrmode = am6809_pcrel8,
          bytes = [0xE6, 0x8C, 0x05, 0, 0, 0, 0, 0],
          insn_string = ''LDB 5,PCR <1005>''\<rparr> \<and>
   (0x1000 :: 32 word) \<noteq> 0x1000 + 5"
  unfolding run_6809_ldy_pcrel8 run_6809_ldb_pcrel8 by simp

text \<open>
  C7. In the 6809 formatter, for const_off16 and const_off16_ind the displayed offset is
  the signed big-endian word read at index \<open>i + i\<close> of the buffer, \<open>i\<close> being the
  index of the first byte after the opcode: at 2 and 3 without a prefix (where
  \<open>i + i = i + 1\<close>), at 4 and 5 after a page prefix (where \<open>i + 1 = 3\<close>). The string
  always fits \<^verbatim>\<open>insn_string\<close>.
\<close>

theorem const_off16_reads_at_i_plus_i:
  assumes "addrmode s = am6809_const_off16 \<or> addrmode s = am6809_const_off16_ind"
  shows "let bs = bytes s;
             paged = (bs ! 0 = 0x10 \<or> bs ! 0 = 0x11);
             i = (if paged then 2 else 1);
             ind = (addrmode s = am6809_const_off16_ind)
         in insn_decode_format_6809 s =
              Inr (s\<lparr>insn_string :=
                insn_decode_format_6809_opc bs @ '' '' @ (if ind then ''['' else '''') @
                fmt_d (read_s16be bs (i + i)) @ '','' @
                index_regnames ! unat (drop_bit 5 (bs ! i) AND 3) @
                (if ind then '']'' else '''')\<rparr>) \<and>
            i + i = (if paged then 4 else 2) \<and> i + 1 = (if paged then 3 else 2)"
proof -
  define i :: nat where "i = (if bytes s ! 0 = 0x10 \<or> bytes s ! 0 = 0x11 then 2 else 1)"
  define ind where "ind \<longleftrightarrow> addrmode s = am6809_const_off16_ind"
  define str where "str =
     insn_decode_format_6809_opc (bytes s) @ '' '' @ (if ind then ''['' else '''') @
     fmt_d (read_s16be (bytes s) (i + i)) @ '','' @
     index_regnames ! unat (drop_bit 5 (bytes s ! i) AND 3) @
     (if ind then '']'' else '''')"
  have sw: "insn_decode_format_6809_switch (addrmode s) (bytes s) i
              (insn_decode_format_6809_opc (bytes s)) = Some (str, 0)"
    using assms
    by (auto simp add: insn_decode_format_6809_switch_def am6809_indirect_p_def Let_def
          str_def ind_def)
  have rng: "\<not> (am_val (addrmode s) < am_val am6809_first \<or>
                am_val (addrmode s) > am_val am6809_last)"
    using assms by (auto simp add: am6809_first_def am6809_last_def)
  have nres: "\<not> am6809_resolves (addrmode s)"
    using assms by (auto simp add: am6809_resolves_def)
  have "length str \<le> 5 + 1 + 1 + 6 + 1 + 1 + 1"
    using length_format_6809_opc [of "bytes s"] length_fmt_d_s16 [of "bytes s" "i + i"]
      length_index_regname [of "drop_bit 5 (bytes s ! i)"]
    by (simp add: str_def)
  then have "store_insn_string str s = Inr (s\<lparr>insn_string := str\<rparr>)"
    by (simp add: store_insn_string_def print_into_def INSN_DECODE_MAXSTRING_def)
  with sw rng nres have "insn_decode_format_6809 s = Inr (s\<lparr>insn_string := str\<rparr>)"
    by (simp add: insn_decode_format_6809_def Let_def i_def)
  then show ?thesis
    by (simp add: Let_def str_def i_def ind_def)
qed

theorem const_off16_reads_at_i_plus_i_witness:
  "addrmode ldy_const_off16_6809 = am6809_const_off16 \<and>
   read_s16be (bytes ldy_const_off16_6809) 4 = 0x3456 \<and>
   read_s16be (bytes ldy_const_off16_6809) 3 = 0x1234 \<and>
   insn_decode_format_6809 ldy_const_off16_6809 =
     Inr (ldy_const_off16_6809\<lparr>insn_string := ''LDY 13398,X''\<rparr>)"
proof -
  have h: "addrmode ldy_const_off16_6809 = am6809_const_off16 \<or>
           addrmode ldy_const_off16_6809 = am6809_const_off16_ind"
    by (simp add: ldy_const_off16_6809_def)
  have r: "read_s16be (bytes ldy_const_off16_6809) 4 = 0x3456"
    "read_s16be (bytes ldy_const_off16_6809) 3 = 0x1234"
    by (simp_all add: ldy_const_off16_6809_def read_s16be_def read_u16be_def)
  have b: "bytes ldy_const_off16_6809 ! 0 = 0x10" "bytes ldy_const_off16_6809 ! 2 = 0x89"
    "addrmode ldy_const_off16_6809 = am6809_const_off16"
    by (simp_all add: ldy_const_off16_6809_def)
  have o: "insn_decode_format_6809_opc (bytes ldy_const_off16_6809) = ''LDY''"
    by (simp add: ldy_const_off16_6809_def insn_decode_format_6809_opc_def)
  have "insn_decode_format_6809 ldy_const_off16_6809 =
          Inr (ldy_const_off16_6809\<lparr>insn_string := ''LDY 13398,X''\<rparr>)"
    using const_off16_reads_at_i_plus_i [OF h]
    by (simp add: Let_def b o r index_regnames_def fmt_eval)
  with b r show ?thesis by blast
qed

text \<open>
  C8. \<^verbatim>\<open>insn_decode_complete\<close> returns the output string when the state is Complete and
  the empty string otherwise; it has no error result, it leaves the session as it was,
  and so a second call returns what the first did.
\<close>

theorem insn_decode_complete_reads:
  "fst (insn_decode_complete s) = (if state s = ds_complete then insn_string s else '''') \<and>
   snd (insn_decode_complete s) = s \<and>
   fst (insn_decode_complete (snd (insn_decode_complete s))) = fst (insn_decode_complete s)"
  by (simp add: insn_decode_complete_def)

text \<open>
  C9. Once \<^verbatim>\<open>bytes_required\<close> is not 0, no sequence of \<^verbatim>\<open>insn_decode_continue\<close> calls
  changes it, on any architecture: whatever session the calls arrive at has the same
  value. Nor does \<^verbatim>\<open>insn_decode_complete\<close> change it, nor \<^verbatim>\<open>insn_decode_begin\<close> while
  the session is Fetching. Only \<^verbatim>\<open>insn_decode_begin\<close> from the Idle or Complete state,
  which starts the next instruction, assigns it again.
\<close>

theorem bytes_required_fixed_once_set:
  assumes "bytes_required s \<noteq> 0"
  shows "(\<forall>s'. run cpu s (map Continue bs) = Inr s' \<longrightarrow> bytes_required s' = bytes_required s) \<and>
         bytes_required (snd (insn_decode_complete s)) = bytes_required s \<and>
         (state s = ds_fetching \<longrightarrow> insn_decode_begin cpu s addr b = Inr s)"
proof -
  have "run cpu s (map Continue bs) = Inr s' \<Longrightarrow> bytes_required s' = bytes_required s"
    for s'
    using assms
  proof (induction bs arbitrary: s)
    case Nil
    then show ?case by simp
  next
    case (Cons c bs)
    show ?case
    proof (cases "insn_decode_continue cpu s c")
      case (Inl e)
      with Cons.prems(1) show ?thesis by simp
    next
      case (Inr p)
      obtain r s1 where p: "p = (r, s1)" by (cases p)
      from Cons.prems(2) Inr p have eq: "bytes_required s1 = bytes_required s"
        by (simp add: continue_bytes_required)
      from Cons.prems(1) Inr p have "run cpu s1 (map Continue bs) = Inr s'" by simp
      moreover from eq Cons.prems(2) have "bytes_required s1 \<noteq> 0" by simp
      ultimately have "bytes_required s' = bytes_required s1" by (rule Cons.IH)
      with eq show ?thesis by simp
    qed
  qed
  then show ?thesis
    by (simp add: insn_decode_complete_def insn_decode_begin_def)
qed

theorem bytes_required_fixed_once_set_witness:
  "bytes_required ldy_6502_fetching \<noteq> 0 \<and> state ldy_6502_fetching = ds_fetching \<and>
   run cpu_6502 ldy_6502_fetching (map Continue [0x00, 0x30]) =
     Inr \<lparr>state = ds_complete, insn_address = 0x1003, resolved_address = 0,
          resolved_address_valid = False, next_state = Some ns_6502,
          bytes_required = 3, bytes_fetched = 3, addrmode = am6502_u16,
          bytes = [0xAC, 0, 0x30, 0, 0, 0, 0, 0], insn_string = ''LDY $3000''\<rparr> \<and>
   bytes_required ldy_6502_fetching = 3 \<and>
   insn_decode_begin cpu_6502 ldy_6502_fetching 0x2000 0xEA = Inr ldy_6502_fetching"
proof -
  have h: "bytes_required ldy_6502_fetching \<noteq> 0"
    by (simp add: ldy_6502_fetching_def)
  have f: "state ldy_6502_fetching = ds_fetching" "bytes_required ldy_6502_fetching = 3"
    by (simp_all add: ldy_6502_fetching_def)
  have r: "run cpu_6502 ldy_6502_fetching (map Continue [0x00, 0x30]) =
     Inr \<lparr>state = ds_complete, insn_address = 0x1003, resolved_address = 0,
          resolved_address_valid = False, next_state = Some ns_6502,
          bytes_required = 3, bytes_fetched = 3, addrmode = am6502_u16,
          bytes = [0xAC, 0, 0x30, 0, 0, 0, 0, 0], insn_string = ''LDY $3000''\<rparr>"
    using run_6502_ldy_rest by simp
  from bytes_required_fixed_once_set [OF h, where cpu = cpu_6502 and addr = "0x2000" and
      b = "0xEA"] f
  have "insn_decode_begin cpu_6502 ldy_6502_fetching 0x2000 0xEA = Inr ldy_6502_fetching"
    by blast
  with h f r show ?thesis by blast
qed

text \<open>
  C10. \<^verbatim>\<open>insn_decode_begin\<close> on a session that is Fetching, or that has no decode
  routine, returns the session with every field as it was.
\<close>

theorem insn_decode_begin_ignored:
  "state s = ds_fetching \<or> next_state s = None \<Longrightarrow> insn_decode_begin cpu s addr b = Inr s"
  by (auto simp add: insn_decode_begin_def)

theorem insn_decode_begin_ignored_witness:
  "state ldy_6502_fetching = ds_fetching \<and>
   insn_decode_begin cpu_6502 ldy_6502_fetching 0x2000 0xEA = Inr ldy_6502_fetching \<and>
   next_state zero_session = None \<and>
   insn_decode_begin cpu_none zero_session 0x2000 0xEA = Inr zero_session"
proof -
  have h1: "state ldy_6502_fetching = ds_fetching \<or> next_state ldy_6502_fetching = None"
    by (simp add: ldy_6502_fetching_def)
  have h2: "state zero_session = ds_fetching \<or> next_state zero_session = None"
    by (simp add: zero_session_def)
  have "state ldy_6502_fetching = ds_fetching" "next_state zero_session = None"
    by (simp_all add: ldy_6502_fetching_def zero_session_def)
  with insn_decode_begin_ignored [OF h1, where cpu = cpu_6502 and addr = "0x2000" and
      b = "0xEA"]
    insn_decode_begin_ignored [OF h2, where cpu = cpu_none and addr = "0x2000" and b = "0xEA"]
  show ?thesis by blast
qed

end
